theory Spec2Isabelle
  imports Complex_Main
begin

section \<open>Numbers, points and text\<close>

text \<open>
  The TypeScript sources compute with \<open>number\<close>. The embedding reads every number as
  a real and every arithmetic operation as the exact one, so rounding of IEEE doubles,
  infinities and NaN are outside the model. The conversion of a number to text inside a
  template literal is a parameter \<open>num\<close> of the functions that build strings; the
  integer literals and flags of a path are printed in decimal by \<open>natToString\<close>.
\<close>

record CartesianPoint =
  px :: real
  py :: real

definition digitChar :: "nat \<Rightarrow> char" where
  "digitChar d = ''0123456789'' ! d"

function natToString :: "nat \<Rightarrow> string" where
  "natToString n =
     (if n < 10 then [digitChar n] else natToString (n div 10) @ [digitChar (n mod 10)])"
  by pat_completeness auto
termination
  by (relation "measure id") auto

declare natToString.simps [simp del]

text \<open>\<open>Array.prototype.join\<close> with a one-space separator.\<close>

fun joinSpace :: "string list \<Rightarrow> string" where
  "joinSpace [] = []"
| "joinSpace [s] = s"
| "joinSpace (s # t # ss) = s @ '' '' @ joinSpace (t # ss)"

text \<open>\<open>Math.hypot(dx, dy)\<close> and the distance between two points.\<close>

definition hypot :: "real \<Rightarrow> real \<Rightarrow> real" where
  "hypot dx dy = sqrt (dx * dx + dy * dy)"

definition distance :: "CartesianPoint \<Rightarrow> CartesianPoint \<Rightarrow> real" where
  "distance p q = hypot (px q - px p) (py q - py p)"

text \<open>
  \<open>Math.atan2(y, x)\<close>, the angle of the vector \<open>(x, y)\<close> in \<open>(-\<pi>, \<pi>]\<close>, by the
  cases of the language standard (signed zeros apart).
\<close>

definition atan2 :: "real \<Rightarrow> real \<Rightarrow> real" where
  "atan2 y x =
     (if 0 < x then arctan (y / x)
      else if x < 0 then (if 0 \<le> y then arctan (y / x) + pi else arctan (y / x) - pi)
      else if 0 < y then pi / 2
      else if y < 0 then - (pi / 2)
      else 0)"

section \<open>Sector geometry\<close>

text \<open>\<open>polarToCartesian\<close>, identical in \<open>src/sectorPath.ts\<close> and in the duplicate.\<close>

definition polarToCartesian :: "real \<Rightarrow> real \<Rightarrow> real \<Rightarrow> real \<Rightarrow> CartesianPoint" where
  "polarToCartesian cx cy r angleRad =
     \<lparr> px = cx + r * cos angleRad, py = cy + r * sin angleRad \<rparr>"

text \<open>
  \<open>sectorPath\<close> of \<open>src/sectorPath.ts\<close>: the guard for a non-positive aperture, then
  the four pieces of the path joined by single spaces.
\<close>

definition sectorPath ::
  "(real \<Rightarrow> string) \<Rightarrow> real \<Rightarrow> real \<Rightarrow> real \<Rightarrow> real \<Rightarrow> real \<Rightarrow> string" where
  "sectorPath num cx cy r yaw pitch =
     (if pitch \<le> 0 then ''M '' @ num cx @ '' '' @ num cy
      else
        let startAngle = yaw - pitch / 2;
            endAngle = yaw + pitch / 2;
            start = polarToCartesian cx cy r startAngle;
            end = polarToCartesian cx cy r endAngle;
            largeArcFlag = (if pitch > pi then 1 else 0 :: nat)
        in joinSpace
             [''M '' @ num cx @ '' '' @ num cy,
              ''L '' @ num (px start) @ '' '' @ num (py start),
              ''A '' @ num r @ '' '' @ num r @ '' 0 '' @ natToString largeArcFlag
                @ '' 1 '' @ num (px end) @ '' '' @ num (py end),
              ''Z''])"

text \<open>
  \<open>sectorPath\<close> of the duplicate module (\<open>src/unnamed/part_001\<close>): no guard, one
  template literal, the sweep flag a variable.
\<close>

definition sectorPath_dup ::
  "(real \<Rightarrow> string) \<Rightarrow> real \<Rightarrow> real \<Rightarrow> real \<Rightarrow> real \<Rightarrow> real \<Rightarrow> string" where
  "sectorPath_dup num cx cy r yaw pitch =
     (let half = pitch / 2;
          startAngle = yaw - half;
          endAngle = yaw + half;
          start = polarToCartesian cx cy r startAngle;
          end = polarToCartesian cx cy r endAngle;
          largeArcFlag = (if pitch > pi then 1 else 0 :: nat);
          sweepFlag = (1 :: nat)
      in ''M '' @ num cx @ '' '' @ num cy
           @ '' L '' @ num (px start) @ '' '' @ num (py start)
           @ '' A '' @ num r @ '' '' @ num r @ '' 0 '' @ natToString largeArcFlag
           @ '' '' @ natToString sweepFlag
           @ '' '' @ num (px end) @ '' '' @ num (py end) @ '' Z'')"

subsection \<open>The boundary as a list of path commands\<close>

text \<open>
  The same two functions before the numbers are printed: the commands of the path with
  their operands. \<open>svgPath\<close> prints a list of commands; \<open>sectorPath_shape\<close> and
  \<open>sectorPath_dup_shape\<close> below show that the strings above are exactly the printed
  command lists.
\<close>

datatype PathCmd =
    MoveTo real real
  | LineTo real real
  | ArcTo real real nat nat nat real real
  | ClosePath

fun cmdText :: "(real \<Rightarrow> string) \<Rightarrow> PathCmd \<Rightarrow> string" where
  "cmdText num (MoveTo a b) = ''M '' @ num a @ '' '' @ num b"
| "cmdText num (LineTo a b) = ''L '' @ num a @ '' '' @ num b"
| "cmdText num (ArcTo rx ry rot large sweep a b) =
     ''A '' @ num rx @ '' '' @ num ry @ '' '' @ natToString rot @ '' '' @ natToString large
       @ '' '' @ natToString sweep @ '' '' @ num a @ '' '' @ num b"
| "cmdText num ClosePath = ''Z''"

definition svgPath :: "(real \<Rightarrow> string) \<Rightarrow> PathCmd list \<Rightarrow> string" where
  "svgPath num cmds = joinSpace (map (cmdText num) cmds)"

definition sectorShape :: "real \<Rightarrow> real \<Rightarrow> real \<Rightarrow> real \<Rightarrow> real \<Rightarrow> PathCmd list" where
  "sectorShape cx cy r yaw pitch =
     (if pitch \<le> 0 then [MoveTo cx cy]
      else
        let startAngle = yaw - pitch / 2;
            endAngle = yaw + pitch / 2;
            start = polarToCartesian cx cy r startAngle;
            end = polarToCartesian cx cy r endAngle;
            largeArcFlag = (if pitch > pi then 1 else 0 :: nat)
        in [MoveTo cx cy, LineTo (px start) (py start),
            ArcTo r r 0 largeArcFlag 1 (px end) (py end), ClosePath])"

definition sectorShape_dup :: "real \<Rightarrow> real \<Rightarrow> real \<Rightarrow> real \<Rightarrow> real \<Rightarrow> PathCmd list" where
  "sectorShape_dup cx cy r yaw pitch =
     (let half = pitch / 2;
          startAngle = yaw - half;
          endAngle = yaw + half;
          start = polarToCartesian cx cy r startAngle;
          end = polarToCartesian cx cy r endAngle;
          largeArcFlag = (if pitch > pi then 1 else 0 :: nat);
          sweepFlag = (1 :: nat)
      in [MoveTo cx cy, LineTo (px start) (py start),
          ArcTo r r 0 largeArcFlag sweepFlag (px end) (py end), ClosePath])"

text \<open>Reading a boundary: the points it mentions, the ends of its arc, its large-arc flag.\<close>

fun cmdPoints :: "PathCmd \<Rightarrow> CartesianPoint list" where
  "cmdPoints (MoveTo a b) = [\<lparr> px = a, py = b \<rparr>]"
| "cmdPoints (LineTo a b) = [\<lparr> px = a, py = b \<rparr>]"
| "cmdPoints (ArcTo rx ry rot large sweep a b) = [\<lparr> px = a, py = b \<rparr>]"
| "cmdPoints ClosePath = []"

definition coordinates :: "PathCmd list \<Rightarrow> CartesianPoint list" where
  "coordinates cmds = concat (map cmdPoints cmds)"

fun arcStart :: "PathCmd list \<Rightarrow> CartesianPoint option" where
  "arcStart (LineTo a b # ArcTo rx ry rot large sweep c d # rest) = Some \<lparr> px = a, py = b \<rparr>"
| "arcStart (c # rest) = arcStart rest"
| "arcStart [] = None"

fun arcEnd :: "PathCmd list \<Rightarrow> CartesianPoint option" where
  "arcEnd (ArcTo rx ry rot large sweep a b # rest) = Some \<lparr> px = a, py = b \<rparr>"
| "arcEnd (c # rest) = arcEnd rest"
| "arcEnd [] = None"

fun largeArc :: "PathCmd list \<Rightarrow> nat option" where
  "largeArc (ArcTo rx ry rot large sweep a b # rest) = Some large"
| "largeArc (c # rest) = largeArc rest"
| "largeArc [] = None"

section \<open>Per-context map state store\<close>

text \<open>
  The store of \<open>src/unnamed/part_001\<close> (\<open>useMapStore\<close>). Record fields carry a prefix
  naming their record: \<open>cone_yaw\<close> is the field \<open>yaw\<close> of a \<open>Cone\<close>, \<open>ps_points\<close> the
  field \<open>points\<close> of a \<open>PathState\<close>. An optional field is an \<open>option\<close>.
\<close>

record Cone =
  cone_yaw :: real
  cone_pitch :: real
  cone_radius :: "real option"

type_synonym GridPoint = CartesianPoint

record PathState =
  ps_points :: "GridPoint list"
  ps_activePoint :: real
  ps_cone :: Cone

record LegacyPoint =
  xPercent :: real
  yPercent :: real

text \<open>
  A stored entry has type \<open>any\<close>: each field may be missing or of another shape.
  \<open>raw_points\<close> is \<open>None\<close> when the field is not an array, \<open>raw_point\<close> is the legacy
  field, \<open>raw_activePoint\<close> is \<open>None\<close> when the field is not a number, \<open>raw_cone\<close> is
  \<open>None\<close> when the field is null or undefined.
\<close>

record RawState =
  raw_points :: "GridPoint list option"
  raw_point :: "LegacyPoint option"
  raw_activePoint :: "real option"
  raw_cone :: "Cone option"

type_synonym Store = "string \<Rightarrow> RawState option"

definition defaultCone :: Cone where
  "defaultCone = \<lparr> cone_yaw = 0, cone_pitch = pi / 3, cone_radius = None \<rparr>"

definition defaultPathState :: PathState where
  "defaultPathState = \<lparr> ps_points = [], ps_activePoint = 0, ps_cone = defaultCone \<rparr>"

text \<open>The entry written by the spread of a \<open>PathState\<close>.\<close>

definition rawOf :: "PathState \<Rightarrow> RawState" where
  "rawOf st = \<lparr> raw_points = Some (ps_points st), raw_point = None,
                raw_activePoint = Some (ps_activePoint st), raw_cone = Some (ps_cone st) \<rparr>"

text \<open>\<open>Number.isInteger\<close> on a number.\<close>

definition isInteger :: "real \<Rightarrow> bool" where
  "isInteger v = (of_int \<lfloor>v\<rfloor> = v)"

definition emptyStore :: Store where
  "emptyStore = (\<lambda>path. None)"

text \<open>
  \<open>pathToState[path]\<close>. The store is a plain object, so a key with no entry of its own
  that names a member of \<open>Object.prototype\<close> reads that inherited member: a value that is
  not \<open>undefined\<close> and has none of the fields of an entry. Every other key with no entry
  reads \<open>undefined\<close>, here \<open>None\<close>.
\<close>

definition inheritedKeys :: "string list" where
  "inheritedKeys =
     [''constructor'', ''__proto__'', ''hasOwnProperty'', ''isPrototypeOf'',
      ''propertyIsEnumerable'', ''toLocaleString'', ''toString'', ''valueOf'',
      ''__defineGetter__'', ''__defineSetter__'', ''__lookupGetter__'', ''__lookupSetter__'']"

definition inheritedRaw :: RawState where
  "inheritedRaw =
     \<lparr> raw_points = None, raw_point = None, raw_activePoint = None, raw_cone = None \<rparr>"

definition readEntry :: "Store \<Rightarrow> string \<Rightarrow> RawState option" where
  "readEntry pathToState path =
     (case pathToState path of
        Some raw \<Rightarrow> Some raw
      | None \<Rightarrow> if path \<in> set inheritedKeys then Some inheritedRaw else None)"

text \<open>\<open>getStateForPath\<close> returns the state read and the store, which a first read extends.\<close>

definition getStateForPath :: "Store \<Rightarrow> string \<Rightarrow> PathState \<times> Store" where
  "getStateForPath pathToState path =
     (case readEntry pathToState path of
        None \<Rightarrow> (defaultPathState, pathToState(path \<mapsto> rawOf defaultPathState))
      | Some raw \<Rightarrow>
          if raw_points raw = None \<and> raw_point raw \<noteq> None then
            (\<lparr> ps_points = [], ps_activePoint = 0,
               ps_cone = (case raw_cone raw of Some c \<Rightarrow> c | None \<Rightarrow> defaultCone) \<rparr>,
             pathToState)
          else
            (\<lparr> ps_points = (case raw_points raw of Some ps \<Rightarrow> ps | None \<Rightarrow> []),
               ps_activePoint =
                 (case raw_activePoint raw of
                    Some a \<Rightarrow> if isInteger a then a else 0
                  | None \<Rightarrow> 0),
               ps_cone = (case raw_cone raw of Some c \<Rightarrow> c | None \<Rightarrow> defaultCone) \<rparr>,
             pathToState))"

text \<open>
  \<open>s.pathToState[path] ?? defaultPathState\<close>, the entry a setter spreads. The spread of
  an inherited member copies no field.
\<close>

definition entryOrDefault :: "Store \<Rightarrow> string \<Rightarrow> RawState" where
  "entryOrDefault pathToState path =
     (case readEntry pathToState path of Some raw \<Rightarrow> raw | None \<Rightarrow> rawOf defaultPathState)"

definition setPointsForPath :: "Store \<Rightarrow> string \<Rightarrow> GridPoint list \<Rightarrow> Store" where
  "setPointsForPath pathToState path points =
     pathToState(path \<mapsto> (entryOrDefault pathToState path)\<lparr> raw_points := Some points \<rparr>)"

definition setActivePointForPath :: "Store \<Rightarrow> string \<Rightarrow> real \<Rightarrow> Store" where
  "setActivePointForPath pathToState path index =
     pathToState(path \<mapsto> (entryOrDefault pathToState path)\<lparr> raw_activePoint := Some index \<rparr>)"

definition setConeForPath :: "Store \<Rightarrow> string \<Rightarrow> Cone \<Rightarrow> Store" where
  "setConeForPath pathToState path cone =
     pathToState(path \<mapsto> (entryOrDefault pathToState path)\<lparr> raw_cone := Some cone \<rparr>)"

section \<open>Cone overlay controller\<close>

text \<open>
  \<open>MapWithCone\<close> of \<open>src/tinyplanetmap/app/CustomMap.tsx\<close>. The props keep their
  names; an optional callback prop is the flag that it was passed. A handler takes the
  props, the component's state and what it reads from the page (the bounding rectangle
  of the container, \<open>None\<close> when the ref is empty), and returns the new state and the
  calls it made, in order.
\<close>

record Props =
  points :: "CartesianPoint list"
  width :: real
  height :: real
  cone :: Cone
  coneOriginIndex :: real
  interactive :: bool
  onConeChange :: bool
  onSelectOrigin :: bool
  originHandleRadius :: real

text \<open>The defaults of the destructured props; \<open>points\<close> and \<open>cone\<close> are required.\<close>

definition defaultProps :: "CartesianPoint list \<Rightarrow> Cone \<Rightarrow> Props" where
  "defaultProps pts c =
     \<lparr> points = pts, width = 525, height = 360, cone = c, coneOriginIndex = 0,
       interactive = False, onConeChange = False, onSelectOrigin = False,
       originHandleRadius = 24 \<rparr>"

record Rect =
  rect_left :: real
  rect_top :: real
  rect_width :: real
  rect_height :: real

record PointerEvent =
  clientX :: real
  clientY :: real
  pointerId :: nat

record PanDrag =
  active :: bool
  startX :: real
  startY :: real
  startPanX :: real
  startPanY :: real

text \<open>The callback handed to \<open>requestAnimationFrame\<close>, with what its closure holds.\<close>

record Frame =
  frame_event :: PointerEvent
  frame_origin :: CartesianPoint
  frame_cone :: Cone

text \<open>
  The state of the component: \<open>animationFrameRef\<close> tells whether the ref holds the id of
  a frame request (it keeps the id after the frame has fired), \<open>pendingFrame\<close> is the
  callback the page will run at the next frame, if one is scheduled.
\<close>

record Ctrl =
  isDragging :: bool
  animationFrameRef :: bool
  pendingFrame :: "Frame option"
  pan :: CartesianPoint
  panDragRef :: PanDrag

text \<open>The state of a freshly mounted component.\<close>

definition initialCtrl :: Ctrl where
  "initialCtrl =
     \<lparr> isDragging = False, animationFrameRef = False, pendingFrame = None,
       pan = \<lparr> px = 0, py = 0 \<rparr>,
       panDragRef = \<lparr> active = False, startX = 0, startY = 0, startPanX = 0, startPanY = 0 \<rparr> \<rparr>"

datatype Call =
    OnSelectOrigin nat
  | OnConeChange Cone
  | SetPointerCapture nat
  | ReleasePointerCapture nat
  | CancelAnimationFrame
  | PreventDefault
  | StoreSetCone string Cone
  | OnPositionChange real real

datatype error = TypeError

text \<open>\<open>points[coneOriginIndex] || { x: width / 2, y: height / 2 }\<close>.\<close>

definition origin :: "Props \<Rightarrow> CartesianPoint" where
  "origin props =
     (let i = coneOriginIndex props in
      if isInteger i \<and> 0 \<le> i \<and> i < real (length (points props))
      then points props ! nat \<lfloor>i\<rfloor>
      else \<lparr> px = width props / 2, py = height props / 2 \<rparr>)"

text \<open>\<open>cone.radius ?? Math.min(width, height) * 0.6\<close>.\<close>

definition radius :: "Props \<Rightarrow> real" where
  "radius props =
     (case cone_radius (cone props) of
        Some r \<Rightarrow> r
      | None \<Rightarrow> min (width props) (height props) * 0.6)"

text \<open>
  \<open>conePath\<close>; the imported \<open>sectorPath\<close> is the first argument, so that either module
  can stand for \<open>./geometry/sectorPath\<close>.
\<close>

definition conePath :: "(real \<Rightarrow> real \<Rightarrow> real \<Rightarrow> real \<Rightarrow> real \<Rightarrow> 'a) \<Rightarrow> Props \<Rightarrow> 'a" where
  "conePath sector props =
     sector (px (origin props)) (py (origin props)) (radius props)
       (cone_yaw (cone props)) (cone_pitch (cone props))"

text \<open>
  The picking loop of \<open>handlePointerDown\<close>: the points still to visit, the index \<open>i\<close>
  of the first of them, and the variables \<open>picked\<close> and \<open>best\<close>; \<open>best = None\<close> is
  \<open>Infinity\<close>.
\<close>

definition lessThanBest :: "real \<Rightarrow> real option \<Rightarrow> bool" where
  "lessThanBest dp best = (case best of None \<Rightarrow> True | Some b \<Rightarrow> dp < b)"

fun pickLoop ::
  "real \<Rightarrow> real \<Rightarrow> real \<Rightarrow> CartesianPoint list \<Rightarrow> nat \<Rightarrow> int \<Rightarrow> real option \<Rightarrow> int" where
  "pickLoop x y R [] i picked best = picked"
| "pickLoop x y R (p # rest) i picked best =
     (let dxp = x - px p;
          dyp = y - py p;
          dp = hypot dxp dyp
      in if lessThanBest dp best \<and> dp \<le> R
         then pickLoop x y R rest (i + 1) (int i) (Some dp)
         else pickLoop x y R rest (i + 1) picked best)"

definition handlePointerDown ::
  "Props \<Rightarrow> Rect option \<Rightarrow> Ctrl \<Rightarrow> PointerEvent \<Rightarrow> Ctrl \<times> Call list" where
  "handlePointerDown props container ctrl e =
     (case container of
        None \<Rightarrow> (ctrl, [])
      | Some rect \<Rightarrow>
          if \<not> interactive props then (ctrl, [])
          else
            let x = clientX e - rect_left rect;
                y = clientY e - rect_top rect;
                picked = pickLoop x y (originHandleRadius props) (points props) 0 (- 1) None
            in if picked \<noteq> - 1
               then (ctrl, if onSelectOrigin props then [OnSelectOrigin (nat picked)] else [])
               else
                 let dx = x - px (origin props);
                     dy = y - py (origin props);
                     distance = sqrt (dx * dx + dy * dy)
                 in if distance \<le> originHandleRadius props
                    then (ctrl\<lparr> isDragging := True \<rparr>, [SetPointerCapture (pointerId e)])
                    else (ctrl, []))"

text \<open>
  \<open>handlePointerDown\<close> of the older copy of the component (\<open>src/unnamed/part_002\<close>),
  which has no \<open>onSelectOrigin\<close> prop and no picking: only the drag around the origin.
\<close>

definition handlePointerDown_dup ::
  "Props \<Rightarrow> Rect option \<Rightarrow> Ctrl \<Rightarrow> PointerEvent \<Rightarrow> Ctrl \<times> Call list" where
  "handlePointerDown_dup props container ctrl e =
     (case container of
        None \<Rightarrow> (ctrl, [])
      | Some rect \<Rightarrow>
          if \<not> interactive props then (ctrl, [])
          else
            let x = clientX e - rect_left rect;
                y = clientY e - rect_top rect;
                dx = x - px (origin props);
                dy = y - py (origin props);
                distance = sqrt (dx * dx + dy * dy)
            in if distance \<le> originHandleRadius props
               then (ctrl\<lparr> isDragging := True \<rparr>, [SetPointerCapture (pointerId e)])
               else (ctrl, []))"

text \<open>
  \<open>handlePointerMove\<close> cancels the frame request the ref holds and schedules a frame;
  \<open>runAnimationFrame\<close> is the scheduled callback when the frame fires. The callback
  reads the container with a non-null assertion, a \<open>TypeError\<close> when the ref is empty.
\<close>

definition handlePointerMove ::
  "Props \<Rightarrow> Rect option \<Rightarrow> Ctrl \<Rightarrow> PointerEvent \<Rightarrow> Ctrl \<times> Call list" where
  "handlePointerMove props container ctrl e =
     (if \<not> isDragging ctrl \<or> \<not> interactive props \<or> container = None \<or> \<not> onConeChange props
      then (ctrl, [])
      else
        (ctrl\<lparr> animationFrameRef := True,
               pendingFrame :=
                 Some \<lparr> frame_event = e, frame_origin = origin props, frame_cone = cone props \<rparr> \<rparr>,
         if animationFrameRef ctrl then [CancelAnimationFrame] else []))"

definition runAnimationFrame :: "Rect option \<Rightarrow> Ctrl \<Rightarrow> error + Ctrl \<times> Call list" where
  "runAnimationFrame container ctrl =
     (case pendingFrame ctrl of
        None \<Rightarrow> Inr (ctrl, [])
      | Some f \<Rightarrow>
          (case container of
             None \<Rightarrow> Inl TypeError
           | Some rect \<Rightarrow>
               let x = clientX (frame_event f) - rect_left rect;
                   y = clientY (frame_event f) - rect_top rect;
                   dx = x - px (frame_origin f);
                   dy = y - py (frame_origin f);
                   newYaw = atan2 dy dx
               in Inr (ctrl\<lparr> pendingFrame := None \<rparr>,
                       [OnConeChange ((frame_cone f)\<lparr> cone_yaw := newYaw \<rparr>)])))"

definition handlePointerUp :: "Ctrl \<Rightarrow> PointerEvent \<Rightarrow> Ctrl \<times> Call list" where
  "handlePointerUp ctrl e =
     (if isDragging ctrl
      then (ctrl\<lparr> isDragging := False \<rparr>, [ReleasePointerCapture (pointerId e)])
      else (ctrl, []))"

text \<open>\<open>handleKeyDown\<close>; the key is the string \<open>e.key\<close>.\<close>

definition handleKeyDown :: "Props \<Rightarrow> string \<Rightarrow> Call list" where
  "handleKeyDown props key =
     (if \<not> interactive props \<or> \<not> onConeChange props then []
      else
        let newYaw = cone_yaw (cone props);
            newPitch = cone_pitch (cone props);
            (updated, newYaw, newPitch) =
              (if key = ''ArrowLeft'' then (True, newYaw - 0.02, newPitch)
               else if key = ''ArrowRight'' then (True, newYaw + 0.02, newPitch)
               else if key = ''ArrowUp'' then (True, newYaw, min (newPitch + 0.02) (pi * 1.8))
               else if key = ''ArrowDown'' then (True, newYaw, max (newPitch - 0.02) 0)
               else (False, newYaw, newPitch))
        in if updated
           then [PreventDefault,
                 OnConeChange ((cone props)\<lparr> cone_yaw := newYaw, cone_pitch := newPitch \<rparr>)]
           else [])"

text \<open>
  The popup viewport: \<open>onPointerDown\<close> records the start of a pan, \<open>onPointerMove\<close>
  moves the pan inside the content. \<open>viewport\<close> is the rectangle of
  \<open>popupViewportRef.current\<close>.
\<close>

definition popupPointerDown :: "Rect option \<Rightarrow> Ctrl \<Rightarrow> PointerEvent \<Rightarrow> Ctrl \<times> Call list" where
  "popupPointerDown viewport ctrl e =
     (case viewport of
        None \<Rightarrow> (ctrl, [])
      | Some el \<Rightarrow>
          (ctrl\<lparr> panDragRef :=
              \<lparr> active = True, startX = clientX e, startY = clientY e,
                startPanX = px (pan ctrl), startPanY = py (pan ctrl) \<rparr> \<rparr>,
           [SetPointerCapture (pointerId e)]))"

definition popupPointerMove :: "Props \<Rightarrow> Rect option \<Rightarrow> Ctrl \<Rightarrow> PointerEvent \<Rightarrow> Ctrl" where
  "popupPointerMove props viewport ctrl e =
     (case viewport of
        None \<Rightarrow> ctrl
      | Some rect \<Rightarrow>
          if \<not> active (panDragRef ctrl) then ctrl
          else
            let viewportW = rect_width rect;
                viewportH = rect_height rect;
                contentW = width props;
                contentH = height props;
                maxX = max 0 (contentW - viewportW);
                maxY = max 0 (contentH - viewportH);
                dx = clientX e - startX (panDragRef ctrl);
                dy = clientY e - startY (panDragRef ctrl);
                nextX = min (max (startPanX (panDragRef ctrl) - dx) 0) maxX;
                nextY = min (max (startPanY (panDragRef ctrl) - dy) 0) maxY
            in ctrl\<lparr> pan := \<lparr> px = nextX, py = nextY \<rparr> \<rparr>)"

text \<open>
  A run of key presses. The parent passes the cone of the last \<open>onConeChange\<close> call
  back as the prop \<open>cone\<close> (\<open>handleConeChange\<close> sets \<open>coneLocal\<close>, which is rendered as
  \<open>cone={coneLocal}\<close>), so each key is handled with the cone the key before produced.
\<close>

fun coneAfter :: "Call list \<Rightarrow> Cone \<Rightarrow> Cone" where
  "coneAfter [] c = c"
| "coneAfter (OnConeChange next # calls) c = coneAfter calls next"
| "coneAfter (call # calls) c = coneAfter calls c"

definition pressKey :: "Props \<Rightarrow> string \<Rightarrow> Props" where
  "pressKey props key = props\<lparr> cone := coneAfter (handleKeyDown props key) (cone props) \<rparr>"

definition pressKeys :: "Props \<Rightarrow> string list \<Rightarrow> Props" where
  "pressKeys props keys = foldl pressKey props keys"

section \<open>Context binding layer\<close>

text \<open>
  \<open>CustomMap\<close> of \<open>src/tinyplanetmap/app/CustomMap.tsx\<close>: what it derives from the state
  of the current path and from the measured size of its container, and the props it
  renders \<open>MapWithCone\<close> with.
\<close>

record Size =
  size_w :: real
  size_h :: real

text \<open>
  \<open>scale\<close>, for base dimensions other than \<open>0\<close> (the division of the model is the real
  one; the source's division by \<open>0\<close> gives an infinity, which the model does not have).
\<close>

definition scale :: "Size \<Rightarrow> real \<Rightarrow> real \<Rightarrow> real" where
  "scale outerSize baseWidth baseHeight =
     (if size_w outerSize = 0 \<or> size_h outerSize = 0 then 1
      else min (size_w outerSize / baseWidth) (size_h outerSize / baseHeight))"

text \<open>
  \<open>pointsGrid\<close>: a \<open>PathState\<close> returned by \<open>getStateForPath\<close> has no field \<open>point\<close>,
  so the legacy branch finds \<open>undefined\<close> and the result is the empty list.
\<close>

definition pointsGrid :: "PathState \<Rightarrow> GridPoint list" where
  "pointsGrid st = (if ps_points st \<noteq> [] then ps_points st else [])"

definition scaledPoints :: "PathState \<Rightarrow> real \<Rightarrow> CartesianPoint list" where
  "scaledPoints st sc = map (\<lambda>p. \<lparr> px = px p * sc, py = py p * sc \<rparr>) (pointsGrid st)"

definition activeIdx :: "PathState \<Rightarrow> real" where
  "activeIdx st =
     (let idx = (if isInteger (ps_activePoint st) then ps_activePoint st else 0)
      in min (max idx 0) (max 0 (real (length (pointsGrid st)) - 1)))"

text \<open>\<open>coneLocal\<close> as \<open>useState\<close> initialises it, and as the effect on the stored cone sets it.\<close>

definition initialConeLocal :: "PathState \<Rightarrow> Cone" where
  "initialConeLocal st =
     \<lparr> cone_yaw = cone_yaw (ps_cone st),
       cone_pitch = (if cone_pitch (ps_cone st) > 0 then cone_pitch (ps_cone st) else pi / 3),
       cone_radius = cone_radius (ps_cone st) \<rparr>"

definition syncedConeLocal :: "PathState \<Rightarrow> Cone" where
  "syncedConeLocal st =
     \<lparr> cone_yaw = cone_yaw (ps_cone st), cone_pitch = cone_pitch (ps_cone st),
       cone_radius = cone_radius (ps_cone st) \<rparr>"

text \<open>
  The props of \<open>MapWithCone\<close> in a render. \<open>scale\<close> is memoised on the size of the
  container alone, so the render uses the scale \<open>sc\<close> computed when that size last
  changed, with the base dimensions of that moment; \<open>mapWithConePropsMemo\<close> takes this
  memoised scale. \<open>mapWithConeProps\<close> is the render in which the base dimensions are still
  those the scale was computed with.
\<close>

definition mapWithConePropsMemo :: "PathState \<Rightarrow> Cone \<Rightarrow> real \<Rightarrow> real \<Rightarrow> real \<Rightarrow> Props" where
  "mapWithConePropsMemo st coneLocal sc baseWidth baseHeight =
     (let scaledW = baseWidth * sc;
          scaledH = baseHeight * sc
      in \<lparr> points = scaledPoints st sc, width = scaledW, height = scaledH, cone = coneLocal,
           coneOriginIndex = activeIdx st, interactive = True, onConeChange = True,
           onSelectOrigin = False, originHandleRadius = 24 \<rparr>)"

definition mapWithConeProps :: "PathState \<Rightarrow> Cone \<Rightarrow> Size \<Rightarrow> real \<Rightarrow> real \<Rightarrow> Props" where
  "mapWithConeProps st coneLocal outerSize baseWidth baseHeight =
     mapWithConePropsMemo st coneLocal (scale outerSize baseWidth baseHeight)
       baseWidth baseHeight"

text \<open>
  The state the binding keeps: the local cone and the store. \<open>listener\<close> tells whether
  an \<open>onPositionChange\<close> prop was passed.
\<close>

record Binding =
  coneLocal :: Cone
  mapStore :: Store

definition handleConeChange :: "string \<Rightarrow> bool \<Rightarrow> Binding \<Rightarrow> Cone \<Rightarrow> Binding \<times> Call list" where
  "handleConeChange pathname listener b next =
     (let stored = \<lparr> cone_yaw = cone_yaw next, cone_pitch = cone_pitch next,
                      cone_radius = cone_radius next \<rparr>
      in (b\<lparr> coneLocal := next, mapStore := setConeForPath (mapStore b) pathname stored \<rparr>,
          StoreSetCone pathname stored
            # (if listener then [OnPositionChange (cone_yaw next) (cone_pitch next)] else [])))"

text \<open>
  The updater both effects hand to \<open>setConeLocal\<close>: nothing when the yaw is the one
  already held, else the new local cone and a write to the store.
\<close>

definition updateYaw :: "string \<Rightarrow> Binding \<Rightarrow> real \<Rightarrow> Binding \<times> Call list" where
  "updateYaw pathname b newYaw =
     (let prev = coneLocal b in
      if cone_yaw prev = newYaw then (b, [])
      else
        let next = prev\<lparr> cone_yaw := newYaw \<rparr>;
            stored = \<lparr> cone_yaw = newYaw, cone_pitch = cone_pitch prev,
                       cone_radius = cone_radius prev \<rparr>
        in (b\<lparr> coneLocal := next, mapStore := setConeForPath (mapStore b) pathname stored \<rparr>,
            [StoreSetCone pathname stored]))"

text \<open>
  The callback subscribed to the viewer's position (the \<open>subscribeViewerPosition\<close>
  effect). It queues the guarded updater and calls the listener, which stands after
  \<open>setConeLocal\<close> and outside the updater's guard; the updater, and with it the write to
  the store, runs when the queued update is processed, so the call of the listener comes
  first. The pitch passed on is \<open>coneLocal.pitch\<close> of the render that subscribed; the
  effect subscribes again whenever that pitch changes.
\<close>

definition onViewerPosition :: "string \<Rightarrow> bool \<Rightarrow> Binding \<Rightarrow> real \<Rightarrow> Binding \<times> Call list" where
  "onViewerPosition pathname listener b newYaw =
     (let notified = (if listener then [OnPositionChange newYaw (cone_pitch (coneLocal b))]
                      else []);
          (b', calls) = updateYaw pathname b newYaw
      in (b', notified @ calls))"

text \<open>The effect on the store's yaw (\<open>storeYaw\<close>), \<open>None\<close> for \<open>undefined\<close>.\<close>

definition storeYawEffect :: "string \<Rightarrow> Binding \<Rightarrow> real option \<Rightarrow> Binding \<times> Call list" where
  "storeYawEffect pathname b storeYaw =
     (case storeYaw of
        None \<Rightarrow> (b, [])
      | Some newYaw \<Rightarrow> updateYaw pathname b newYaw)"

section \<open>Sector geometry: properties\<close>

lemma natToString_0: "natToString 0 = ''0''"
  by (simp add: natToString.simps digitChar_def)

lemma natToString_1: "natToString (Suc 0) = ''1''"
  by (simp add: natToString.simps digitChar_def)

lemma sectorPath_shape:
  "sectorPath num cx cy r yaw pitch = svgPath num (sectorShape cx cy r yaw pitch)"
  by (simp add: sectorPath_def sectorShape_def svgPath_def Let_def natToString_0 natToString_1)

lemma sectorPath_dup_shape:
  "sectorPath_dup num cx cy r yaw pitch = svgPath num (sectorShape_dup cx cy r yaw pitch)"
  by (simp add: sectorPath_dup_def sectorShape_dup_def svgPath_def Let_def
      natToString_0 natToString_1)

lemma polar_distance:
  "distance \<lparr> px = cx, py = cy \<rparr> (polarToCartesian cx cy r a) = \<bar>r\<bar>"
proof -
  have unit: "cos a * cos a + sin a * sin a = 1"
    using sin_cos_squared_add [of a] by (simp add: power2_eq_square add.commute)
  have "r * cos a * (r * cos a) + r * sin a * (r * sin a)
          = r * r * (cos a * cos a + sin a * sin a)"
    by (simp only: distrib_left mult_ac)
  then have "r * cos a * (r * cos a) + r * sin a * (r * sin a) = r * r"
    by (simp only: unit mult_1_right)
  then show ?thesis
    by (simp add: distance_def hypot_def polarToCartesian_def)
qed

lemma sectorShape_dup_eq:
  "0 < pitch \<Longrightarrow> sectorShape_dup cx cy r yaw pitch = sectorShape cx cy r yaw pitch"
  by (simp add: sectorShape_dup_def sectorShape_def Let_def)

lemma sectorShape_positive:
  "0 < pitch \<Longrightarrow>
   sectorShape cx cy r yaw pitch =
     [MoveTo cx cy,
      LineTo (px (polarToCartesian cx cy r (yaw - pitch / 2)))
             (py (polarToCartesian cx cy r (yaw - pitch / 2))),
      ArcTo r r 0 (if pitch > pi then 1 else 0) 1
             (px (polarToCartesian cx cy r (yaw + pitch / 2)))
             (py (polarToCartesian cx cy r (yaw + pitch / 2))),
      ClosePath]"
  by (simp add: sectorShape_def Let_def)

lemma point_eta: "\<lparr> px = px (p :: CartesianPoint), py = py p \<rparr> = p"
  by simp

text \<open>
  The guarded function of \<open>src/sectorPath.ts\<close> at a non-positive aperture: the text
  \<open>M cx cy\<close>, a boundary whose only coordinate is the centre.
\<close>

lemma sectorPath_degenerate:
  "pitch \<le> 0 \<Longrightarrow>
   sectorPath num cx cy r yaw pitch = ''M '' @ num cx @ '' '' @ num cy \<and>
   sectorShape cx cy r yaw pitch = [MoveTo cx cy] \<and>
   coordinates (sectorShape cx cy r yaw pitch) = [\<lparr> px = cx, py = cy \<rparr>]"
  by (simp add: sectorPath_def sectorShape_def coordinates_def)

text \<open>
  Claim C3, at the duplicate module. For a zero aperture the unguarded \<open>sectorPath\<close> of
  \<open>src/unnamed/part_001\<close> does not return the degenerate marker: called with centre
  \<open>(0, 0)\<close>, radius \<open>10\<close>, yaw \<open>0\<close> and pitch \<open>0\<close> it returns the full path
  \<open>M 0 0 L 10 0 A 10 10 0 0 1 10 0 Z\<close>, whose coordinates include the point
  \<open>(10, 0)\<close> besides the centre, while the guarded \<open>sectorPath\<close> of
  \<open>src/sectorPath.ts\<close> returns \<open>M 0 0\<close> on the same input.
\<close>

theorem sectorPath_dup_zero_pitch:
  "sectorPath_dup num 0 0 10 0 0 =
     ''M '' @ num 0 @ '' '' @ num 0 @ '' L '' @ num 10 @ '' '' @ num 0
       @ '' A '' @ num 10 @ '' '' @ num 10 @ '' 0 0 1 '' @ num 10 @ '' '' @ num 0 @ '' Z'' \<and>
   coordinates (sectorShape_dup 0 0 10 0 0) =
     [\<lparr> px = 0, py = 0 \<rparr>, \<lparr> px = 10, py = 0 \<rparr>, \<lparr> px = 10, py = 0 \<rparr>] \<and>
   sectorPath num 0 0 10 0 0 = ''M '' @ num 0 @ '' '' @ num 0 \<and>
   coordinates (sectorShape 0 0 10 0 0) = [\<lparr> px = 0, py = 0 \<rparr>]"
  by (simp add: sectorPath_dup_def sectorShape_dup_def sectorPath_def sectorShape_def
      coordinates_def polarToCartesian_def Let_def natToString_0 natToString_1)

text \<open>
  Claim C1. For every centre \<open>(cx, cy)\<close>, radius \<open>r\<close> (a radius is not negative), yaw
  and pitch with \<open>0 < pitch < 2\<pi>\<close>, the boundary returned by \<open>sectorPath\<close>, in either
  module, has its arc start point at polar angle \<open>yaw - pitch / 2\<close> and its arc end point
  at polar angle \<open>yaw + pitch / 2\<close> around the centre, both at Euclidean distance exactly
  \<open>r\<close> from \<open>(cx, cy)\<close>, and the large-arc flag in the result is \<open>1\<close> if and only if
  \<open>pitch > \<pi>\<close>.
\<close>

theorem sectorPath_arc_points:
  assumes "0 < pitch" and "pitch < 2 * pi" and "0 \<le> r"
  shows "arcStart (sectorShape cx cy r yaw pitch)
           = Some \<lparr> px = cx + r * cos (yaw - pitch / 2), py = cy + r * sin (yaw - pitch / 2) \<rparr> \<and>
         arcEnd (sectorShape cx cy r yaw pitch)
           = Some \<lparr> px = cx + r * cos (yaw + pitch / 2), py = cy + r * sin (yaw + pitch / 2) \<rparr> \<and>
         distance \<lparr> px = cx, py = cy \<rparr>
           \<lparr> px = cx + r * cos (yaw - pitch / 2), py = cy + r * sin (yaw - pitch / 2) \<rparr> = r \<and>
         distance \<lparr> px = cx, py = cy \<rparr>
           \<lparr> px = cx + r * cos (yaw + pitch / 2), py = cy + r * sin (yaw + pitch / 2) \<rparr> = r \<and>
         largeArc (sectorShape cx cy r yaw pitch) = Some (if pitch > pi then 1 else 0) \<and>
         (largeArc (sectorShape cx cy r yaw pitch) = Some 1) = (pitch > pi) \<and>
         arcStart (sectorShape_dup cx cy r yaw pitch) = arcStart (sectorShape cx cy r yaw pitch) \<and>
         arcEnd (sectorShape_dup cx cy r yaw pitch) = arcEnd (sectorShape cx cy r yaw pitch) \<and>
         largeArc (sectorShape_dup cx cy r yaw pitch) = largeArc (sectorShape cx cy r yaw pitch) \<and>
         sectorPath num cx cy r yaw pitch = svgPath num (sectorShape cx cy r yaw pitch) \<and>
         sectorPath_dup num cx cy r yaw pitch = svgPath num (sectorShape_dup cx cy r yaw pitch)"
proof -
  have shape: "sectorShape_dup cx cy r yaw pitch = sectorShape cx cy r yaw pitch"
    using assms(1) by (rule sectorShape_dup_eq)
  have s: "arcStart (sectorShape cx cy r yaw pitch)
             = Some \<lparr> px = cx + r * cos (yaw - pitch / 2), py = cy + r * sin (yaw - pitch / 2) \<rparr>"
    using assms(1) by (simp add: sectorShape_positive polarToCartesian_def)
  have e: "arcEnd (sectorShape cx cy r yaw pitch)
             = Some \<lparr> px = cx + r * cos (yaw + pitch / 2), py = cy + r * sin (yaw + pitch / 2) \<rparr>"
    using assms(1) by (simp add: sectorShape_positive polarToCartesian_def)
  have dist: "distance \<lparr> px = cx, py = cy \<rparr> \<lparr> px = cx + r * cos a, py = cy + r * sin a \<rparr> = r"
    for a
    using polar_distance [of cx cy r a] assms(3) by (simp add: polarToCartesian_def)
  have f: "largeArc (sectorShape cx cy r yaw pitch) = Some (if pitch > pi then 1 else 0)"
    using assms(1) by (simp add: sectorShape_positive)
  have f': "(largeArc (sectorShape cx cy r yaw pitch) = Some 1) = (pitch > pi)"
    by (simp add: f)
  have same: "arcStart (sectorShape_dup cx cy r yaw pitch)
                = arcStart (sectorShape cx cy r yaw pitch)"
      "arcEnd (sectorShape_dup cx cy r yaw pitch) = arcEnd (sectorShape cx cy r yaw pitch)"
      "largeArc (sectorShape_dup cx cy r yaw pitch) = largeArc (sectorShape cx cy r yaw pitch)"
    by (simp_all only: shape)
  show ?thesis
    by (intro conjI s e dist f f' same sectorPath_shape sectorPath_dup_shape)
qed

theorem sectorPath_arc_points_witness:
  "0 < pi \<and> pi < 2 * pi \<and> (0 :: real) \<le> 2 \<and>
   arcStart (sectorShape 0 0 2 0 pi) = Some \<lparr> px = 0, py = - 2 \<rparr> \<and>
   arcEnd (sectorShape 0 0 2 0 pi) = Some \<lparr> px = 0, py = 2 \<rparr> \<and>
   distance \<lparr> px = 0, py = 0 \<rparr> \<lparr> px = 0, py = - 2 \<rparr> = 2 \<and>
   distance \<lparr> px = 0, py = 0 \<rparr> \<lparr> px = 0, py = 2 \<rparr> = 2 \<and>
   largeArc (sectorShape 0 0 2 0 pi) = Some 0 \<and>
   arcStart (sectorShape_dup 0 0 2 0 pi) = Some \<lparr> px = 0, py = - 2 \<rparr> \<and>
   0 < 3 * pi / 2 \<and> 3 * pi / 2 < 2 * pi \<and>
   largeArc (sectorShape 0 0 2 0 (3 * pi / 2)) = Some 1 \<and>
   largeArc (sectorShape_dup 0 0 2 0 (3 * pi / 2)) = Some 1"
  using sectorPath_arc_points [of pi 2 0 0 0] sectorPath_arc_points [of "3 * pi / 2" 2 0 0 0]
  by simp

text \<open>
  Without the reading of \<open>r\<close> as a radius the distance is \<open>\<bar>r\<bar>\<close>: \<open>sectorPath\<close> accepts
  any number as \<open>r\<close> and does not reject a negative one.
\<close>

lemma sectorPath_arc_distance_any_r:
  "0 < pitch \<Longrightarrow>
   map_option (distance \<lparr> px = cx, py = cy \<rparr>) (arcStart (sectorShape cx cy r yaw pitch))
     = Some \<bar>r\<bar> \<and>
   map_option (distance \<lparr> px = cx, py = cy \<rparr>) (arcEnd (sectorShape cx cy r yaw pitch))
     = Some \<bar>r\<bar>"
  by (simp add: sectorShape_positive point_eta polar_distance)

text \<open>
  Claim C10. For every centre, radius, yaw and every \<open>pitch > 0\<close>, and whatever the
  printing of numbers, the \<open>sectorPath\<close> of \<open>src/sectorPath.ts\<close> and the one of the
  duplicate module return the same string.
\<close>

theorem sectorPath_implementations_agree:
  "0 < pitch \<Longrightarrow> sectorPath_dup num cx cy r yaw pitch = sectorPath num cx cy r yaw pitch"
  by (simp only: sectorPath_dup_shape sectorPath_shape sectorShape_dup_eq)

theorem sectorPath_implementations_agree_witness:
  "(0 :: real) < 1 \<and>
   sectorPath_dup (\<lambda>v. if v = 0 then ''0'' else ''n'') 0 0 0 0 1 = ''M 0 0 L 0 0 A 0 0 0 0 1 0 0 Z'' \<and>
   sectorPath (\<lambda>v. if v = 0 then ''0'' else ''n'') 0 0 0 0 1 = ''M 0 0 L 0 0 A 0 0 0 0 1 0 0 Z''"
proof -
  have one: "sectorPath_dup (\<lambda>v. if v = 0 then ''0'' else ''n'') 0 0 0 0 1
               = ''M 0 0 L 0 0 A 0 0 0 0 1 0 0 Z''"
    using pi_ge_two
    by (simp add: sectorPath_dup_def polarToCartesian_def Let_def natToString_0 natToString_1)
  show ?thesis
    using sectorPath_implementations_agree
            [of 1 "\<lambda>v. if v = 0 then ''0'' else ''n''" 0 0 0 0] one
    by simp
qed

section \<open>Per-context map state store: properties\<close>

text \<open>
  Claim C7. For every store and every context key, a second \<open>getStateForPath\<close> with no
  write in between returns the state the first one returned (and leaves the store as the
  first one left it). For every cone \<open>c\<close>, \<open>setConeForPath\<close> followed by a read returns
  a state whose cone is \<open>c\<close> and whose points and active point are those a read before the
  write returned, the default ones when the context was missing; this holds whether or
  not that earlier read took place.
\<close>

theorem store_read_twice_and_setCone:
  "fst (getStateForPath (snd (getStateForPath pathToState path)) path)
     = fst (getStateForPath pathToState path) \<and>
   snd (getStateForPath (snd (getStateForPath pathToState path)) path)
     = snd (getStateForPath pathToState path) \<and>
   ps_cone (fst (getStateForPath (setConeForPath pathToState path c) path)) = c \<and>
   ps_points (fst (getStateForPath (setConeForPath pathToState path c) path))
     = ps_points (fst (getStateForPath pathToState path)) \<and>
   ps_activePoint (fst (getStateForPath (setConeForPath pathToState path c) path))
     = ps_activePoint (fst (getStateForPath pathToState path)) \<and>
   ps_cone (fst (getStateForPath
                   (setConeForPath (snd (getStateForPath pathToState path)) path c) path)) = c \<and>
   ps_points (fst (getStateForPath
                     (setConeForPath (snd (getStateForPath pathToState path)) path c) path))
     = ps_points (fst (getStateForPath pathToState path)) \<and>
   ps_activePoint (fst (getStateForPath
                          (setConeForPath (snd (getStateForPath pathToState path)) path c) path))
     = ps_activePoint (fst (getStateForPath pathToState path))"
proof -
  have twice: "fst (getStateForPath (snd (getStateForPath pathToState path)) path)
                 = fst (getStateForPath pathToState path)"
    by (simp add: getStateForPath_def readEntry_def inheritedRaw_def rawOf_def
        defaultPathState_def isInteger_def split: option.splits)
  have same: "snd (getStateForPath (snd (getStateForPath pathToState path)) path)
                = snd (getStateForPath pathToState path)"
    by (simp add: getStateForPath_def readEntry_def inheritedRaw_def rawOf_def
        split: option.splits)
  have frame: "ps_cone (fst (getStateForPath (setConeForPath S path c) path)) = c \<and>
               ps_points (fst (getStateForPath (setConeForPath S path c) path))
                 = ps_points (fst (getStateForPath S path)) \<and>
               ps_activePoint (fst (getStateForPath (setConeForPath S path c) path))
                 = ps_activePoint (fst (getStateForPath S path))" for S
    by (simp add: getStateForPath_def setConeForPath_def entryOrDefault_def readEntry_def
        inheritedRaw_def rawOf_def
        defaultPathState_def isInteger_def split: option.splits)
  show ?thesis
    using frame [of pathToState] frame [of "snd (getStateForPath pathToState path)"]
    by (simp only: twice same simp_thms)
qed

text \<open>On a store with no entry for the key, the write then the read give the default state
  with the cone replaced.\<close>

lemma store_setCone_missing:
  "fst (getStateForPath (setConeForPath emptyStore path c) path)
     = \<lparr> ps_points = [], ps_activePoint = 0, ps_cone = c \<rparr>"
  by (simp add: getStateForPath_def setConeForPath_def entryOrDefault_def readEntry_def
        inheritedRaw_def rawOf_def
      defaultPathState_def emptyStore_def isInteger_def)

section \<open>Cone overlay controller: properties\<close>

text \<open>
  Claim C8. While a pan of the popup is active, a pointer move sets the pan, on each axis
  by itself, to the start offset minus the pointer's displacement, clamped to the
  interval from \<open>0\<close> to \<open>max 0 (content - viewport)\<close>: the pan is never negative, never
  above that bound (so never above \<open>content - viewport\<close> when the content is at least as
  large as the viewport), and it is \<open>0\<close> when the content is not larger than the viewport.
\<close>

theorem popup_pan_clamped:
  assumes "active (panDragRef ctrl)"
  shows "px (pan (popupPointerMove props (Some rect) ctrl e))
           = min (max (startPanX (panDragRef ctrl) - (clientX e - startX (panDragRef ctrl))) 0)
                 (max 0 (width props - rect_width rect)) \<and>
         py (pan (popupPointerMove props (Some rect) ctrl e))
           = min (max (startPanY (panDragRef ctrl) - (clientY e - startY (panDragRef ctrl))) 0)
                 (max 0 (height props - rect_height rect)) \<and>
         0 \<le> px (pan (popupPointerMove props (Some rect) ctrl e)) \<and>
         0 \<le> py (pan (popupPointerMove props (Some rect) ctrl e)) \<and>
         px (pan (popupPointerMove props (Some rect) ctrl e))
           \<le> max 0 (width props - rect_width rect) \<and>
         py (pan (popupPointerMove props (Some rect) ctrl e))
           \<le> max 0 (height props - rect_height rect) \<and>
         (rect_width rect \<le> width props \<longrightarrow>
            px (pan (popupPointerMove props (Some rect) ctrl e)) \<le> width props - rect_width rect) \<and>
         (rect_height rect \<le> height props \<longrightarrow>
            py (pan (popupPointerMove props (Some rect) ctrl e))
              \<le> height props - rect_height rect) \<and>
         (width props \<le> rect_width rect \<longrightarrow>
            px (pan (popupPointerMove props (Some rect) ctrl e)) = 0) \<and>
         (height props \<le> rect_height rect \<longrightarrow>
            py (pan (popupPointerMove props (Some rect) ctrl e)) = 0)"
proof -
  have x: "px (pan (popupPointerMove props (Some rect) ctrl e))
           = min (max (startPanX (panDragRef ctrl) - (clientX e - startX (panDragRef ctrl))) 0)
                 (max 0 (width props - rect_width rect))"
    using assms by (simp add: popupPointerMove_def Let_def)
  have y: "py (pan (popupPointerMove props (Some rect) ctrl e))
           = min (max (startPanY (panDragRef ctrl) - (clientY e - startY (panDragRef ctrl))) 0)
                 (max 0 (height props - rect_height rect))"
    using assms by (simp add: popupPointerMove_def Let_def)
  show ?thesis
    unfolding x y by (auto simp: min_def max_def)
qed

theorem popup_pan_clamped_witness:
  "active (panDragRef (fst (popupPointerDown
      (Some \<lparr> rect_left = 0, rect_top = 0, rect_width = 400, rect_height = 400 \<rparr>) initialCtrl
      \<lparr> clientX = 300, clientY = 200, pointerId = 1 \<rparr>))) \<and>
   (400 :: real) \<le> 525 \<and> (360 :: real) \<le> 400 \<and>
   pan (popupPointerMove (defaultProps [] defaultCone)
      (Some \<lparr> rect_left = 0, rect_top = 0, rect_width = 400, rect_height = 400 \<rparr>)
      (fst (popupPointerDown
         (Some \<lparr> rect_left = 0, rect_top = 0, rect_width = 400, rect_height = 400 \<rparr>) initialCtrl
         \<lparr> clientX = 300, clientY = 200, pointerId = 1 \<rparr>))
      \<lparr> clientX = 100, clientY = - 1000, pointerId = 1 \<rparr>) = \<lparr> px = 125, py = 0 \<rparr> \<and>
   (525 :: real) \<le> 600 \<and> (200 :: real) \<le> 360 \<and>
   pan (popupPointerMove (defaultProps [] defaultCone)
      (Some \<lparr> rect_left = 0, rect_top = 0, rect_width = 600, rect_height = 200 \<rparr>)
      (fst (popupPointerDown
         (Some \<lparr> rect_left = 0, rect_top = 0, rect_width = 600, rect_height = 200 \<rparr>) initialCtrl
         \<lparr> clientX = 300, clientY = 200, pointerId = 1 \<rparr>))
      \<lparr> clientX = 100, clientY = 150, pointerId = 1 \<rparr>) = \<lparr> px = 0, py = 50 \<rparr>"
  using popup_pan_clamped
    [of "fst (popupPointerDown
           (Some \<lparr> rect_left = 0, rect_top = 0, rect_width = 400, rect_height = 400 \<rparr>) initialCtrl
           \<lparr> clientX = 300, clientY = 200, pointerId = 1 \<rparr>)"
        "defaultProps [] defaultCone"
        "\<lparr> rect_left = 0, rect_top = 0, rect_width = 400, rect_height = 400 \<rparr>"
        "\<lparr> clientX = 100, clientY = - 1000, pointerId = 1 \<rparr>"]
    popup_pan_clamped
    [of "fst (popupPointerDown
           (Some \<lparr> rect_left = 0, rect_top = 0, rect_width = 600, rect_height = 200 \<rparr>) initialCtrl
           \<lparr> clientX = 300, clientY = 200, pointerId = 1 \<rparr>)"
        "defaultProps [] defaultCone"
        "\<lparr> rect_left = 0, rect_top = 0, rect_width = 600, rect_height = 200 \<rparr>"
        "\<lparr> clientX = 100, clientY = 150, pointerId = 1 \<rparr>"]
  by (simp add: popupPointerDown_def initialCtrl_def defaultProps_def popupPointerMove_def)

lemma pressKey_flags:
  "interactive (pressKey props key) = interactive props \<and>
   onConeChange (pressKey props key) = onConeChange props"
  by (simp add: pressKey_def)

lemma pressKey_ArrowUp:
  "interactive props \<Longrightarrow> onConeChange props \<Longrightarrow>
   cone (pressKey props ''ArrowUp'')
     = (cone props)\<lparr> cone_pitch := min (cone_pitch (cone props) + 0.02) (pi * 1.8) \<rparr>"
  by (simp add: pressKey_def handleKeyDown_def)

lemma pressKey_ArrowDown:
  "interactive props \<Longrightarrow> onConeChange props \<Longrightarrow>
   cone (pressKey props ''ArrowDown'')
     = (cone props)\<lparr> cone_pitch := max (cone_pitch (cone props) - 0.02) 0 \<rparr>"
  by (simp add: pressKey_def handleKeyDown_def)

lemma pressKey_ArrowLeft:
  "interactive props \<Longrightarrow> onConeChange props \<Longrightarrow>
   cone (pressKey props ''ArrowLeft'')
     = (cone props)\<lparr> cone_yaw := cone_yaw (cone props) - 0.02 \<rparr>"
  by (simp add: pressKey_def handleKeyDown_def)

lemma pressKey_ArrowRight:
  "interactive props \<Longrightarrow> onConeChange props \<Longrightarrow>
   cone (pressKey props ''ArrowRight'')
     = (cone props)\<lparr> cone_yaw := cone_yaw (cone props) + 0.02 \<rparr>"
  by (simp add: pressKey_def handleKeyDown_def)

lemma pressKey_other:
  "key \<notin> {''ArrowLeft'', ''ArrowRight'', ''ArrowUp'', ''ArrowDown''} \<Longrightarrow>
   pressKey props key = props"
  by (simp add: pressKey_def handleKeyDown_def)

lemma pressKey_inert:
  "\<not> (interactive props \<and> onConeChange props) \<Longrightarrow> pressKey props key = props"
  by (auto simp: pressKey_def handleKeyDown_def)

lemma pressKey_pitch_range:
  assumes "0 \<le> cone_pitch (cone props)" and "cone_pitch (cone props) \<le> pi * 1.8"
  shows "0 \<le> cone_pitch (cone (pressKey props key)) \<and>
         cone_pitch (cone (pressKey props key)) \<le> pi * 1.8"
proof (cases "interactive props \<and> onConeChange props")
  case False
  then show ?thesis
    using assms by (simp only: pressKey_inert simp_thms)
next
  case True
  have top: "0 \<le> pi * 1.8"
    using pi_ge_zero by simp
  consider (left) "key = ''ArrowLeft''" | (right) "key = ''ArrowRight''"
    | (up) "key = ''ArrowUp''" | (down) "key = ''ArrowDown''"
    | (other) "key \<notin> {''ArrowLeft'', ''ArrowRight'', ''ArrowUp'', ''ArrowDown''}"
    by auto
  then show ?thesis
  proof cases
    case left
    then show ?thesis using True assms by (simp add: pressKey_ArrowLeft)
  next
    case right
    then show ?thesis using True assms by (simp add: pressKey_ArrowRight)
  next
    case up
    then show ?thesis using True assms top by (simp add: pressKey_ArrowUp min_def)
  next
    case down
    then show ?thesis using True assms top by (simp add: pressKey_ArrowDown max_def)
  next
    case other
    then show ?thesis using assms by (simp only: pressKey_other simp_thms)
  qed
qed

lemma pressKeys_pitch_range:
  "0 \<le> cone_pitch (cone props) \<Longrightarrow> cone_pitch (cone props) \<le> pi * 1.8 \<Longrightarrow>
   0 \<le> cone_pitch (cone (pressKeys props keys)) \<and>
   cone_pitch (cone (pressKeys props keys)) \<le> pi * 1.8"
  unfolding pressKeys_def
proof (induction keys arbitrary: props)
  case Nil
  then show ?case by simp
next
  case (Cons key keys)
  have "0 \<le> cone_pitch (cone (pressKey props key)) \<and>
        cone_pitch (cone (pressKey props key)) \<le> pi * 1.8"
    using Cons.prems by (rule pressKey_pitch_range)
  then show ?case
    using Cons.IH [of "pressKey props key"] by simp
qed

text \<open>
  Claim C5, amended. With the controller interactive and a change callback passed,
  \<open>ArrowUp\<close> sets the pitch to \<open>min (pitch + 0.02) (1.8\<pi>)\<close>, never above \<open>1.8\<pi>\<close>,
  \<open>ArrowDown\<close> sets it to \<open>max (pitch - 0.02) 0\<close>, never negative, and \<open>ArrowLeft\<close> and
  \<open>ArrowRight\<close> move the yaw by \<open>0.02\<close> without any clamp and leave the pitch alone. For
  every starting cone whose pitch lies in \<open>[0, 1.8\<pi>]\<close>, any sequence of key presses
  keeps the pitch in \<open>[0, 1.8\<pi>]\<close>.
\<close>

theorem keyboard_pitch_clamped:
  "(interactive props \<and> onConeChange props \<longrightarrow>
      cone (pressKey props ''ArrowUp'')
        = (cone props)\<lparr> cone_pitch := min (cone_pitch (cone props) + 0.02) (pi * 1.8) \<rparr> \<and>
      cone (pressKey props ''ArrowDown'')
        = (cone props)\<lparr> cone_pitch := max (cone_pitch (cone props) - 0.02) 0 \<rparr> \<and>
      cone (pressKey props ''ArrowLeft'')
        = (cone props)\<lparr> cone_yaw := cone_yaw (cone props) - 0.02 \<rparr> \<and>
      cone (pressKey props ''ArrowRight'')
        = (cone props)\<lparr> cone_yaw := cone_yaw (cone props) + 0.02 \<rparr> \<and>
      cone_pitch (cone (pressKey props ''ArrowUp'')) \<le> pi * 1.8 \<and>
      0 \<le> cone_pitch (cone (pressKey props ''ArrowDown'')) \<and>
      (pi * 1.8 \<le> cone_pitch (cone props) + 0.02 \<longrightarrow>
         cone_pitch (cone (pressKey props ''ArrowUp'')) = pi * 1.8) \<and>
      (cone_pitch (cone props) - 0.02 \<le> 0 \<longrightarrow>
         cone_pitch (cone (pressKey props ''ArrowDown'')) = 0)) \<and>
   (0 \<le> cone_pitch (cone props) \<and> cone_pitch (cone props) \<le> pi * 1.8 \<longrightarrow>
      0 \<le> cone_pitch (cone (pressKeys props keys)) \<and>
      cone_pitch (cone (pressKeys props keys)) \<le> pi * 1.8)"
proof -
  have steps: "cone_pitch (cone (pressKey props ''ArrowUp'')) \<le> pi * 1.8 \<and>
      0 \<le> cone_pitch (cone (pressKey props ''ArrowDown'')) \<and>
      (pi * 1.8 \<le> cone_pitch (cone props) + 0.02 \<longrightarrow>
         cone_pitch (cone (pressKey props ''ArrowUp'')) = pi * 1.8) \<and>
      (cone_pitch (cone props) - 0.02 \<le> 0 \<longrightarrow>
         cone_pitch (cone (pressKey props ''ArrowDown'')) = 0)"
    if "interactive props" and "onConeChange props"
    using that by (simp add: pressKey_ArrowUp pressKey_ArrowDown min_def max_def)
  have keys: "cone (pressKey props ''ArrowUp'')
        = (cone props)\<lparr> cone_pitch := min (cone_pitch (cone props) + 0.02) (pi * 1.8) \<rparr> \<and>
      cone (pressKey props ''ArrowDown'')
        = (cone props)\<lparr> cone_pitch := max (cone_pitch (cone props) - 0.02) 0 \<rparr> \<and>
      cone (pressKey props ''ArrowLeft'')
        = (cone props)\<lparr> cone_yaw := cone_yaw (cone props) - 0.02 \<rparr> \<and>
      cone (pressKey props ''ArrowRight'')
        = (cone props)\<lparr> cone_yaw := cone_yaw (cone props) + 0.02 \<rparr>"
    if "interactive props" and "onConeChange props"
    using that
    by (simp only: pressKey_ArrowUp pressKey_ArrowDown pressKey_ArrowLeft pressKey_ArrowRight
        simp_thms)
  have range: "0 \<le> cone_pitch (cone (pressKeys props keys)) \<and>
      cone_pitch (cone (pressKeys props keys)) \<le> pi * 1.8"
    if "0 \<le> cone_pitch (cone props) \<and> cone_pitch (cone props) \<le> pi * 1.8"
    using that pressKeys_pitch_range [of props keys] by blast
  show ?thesis
    using steps keys range by blast
qed

theorem keyboard_pitch_clamped_witness:
  "interactive ((defaultProps [] defaultCone)\<lparr> interactive := True, onConeChange := True \<rparr>) \<and>
   onConeChange ((defaultProps [] defaultCone)\<lparr> interactive := True, onConeChange := True \<rparr>) \<and>
   0 \<le> cone_pitch (cone ((defaultProps [] defaultCone)
                             \<lparr> interactive := True, onConeChange := True \<rparr>)) \<and>
   cone_pitch (cone ((defaultProps [] defaultCone)
                       \<lparr> interactive := True, onConeChange := True \<rparr>)) \<le> pi * 1.8 \<and>
   cone (pressKey ((defaultProps [] defaultCone)\<lparr> interactive := True, onConeChange := True \<rparr>)
           ''ArrowLeft'')
     = \<lparr> cone_yaw = - 0.02, cone_pitch = pi / 3, cone_radius = None \<rparr> \<and>
   cone_pitch (cone (pressKeys
       ((defaultProps [] defaultCone)\<lparr> interactive := True, onConeChange := True \<rparr>)
       [''ArrowUp'', ''ArrowLeft'', ''ArrowDown''])) \<le> pi * 1.8 \<and>
   pi * 1.8 \<le> pi * 1.8 + 0.02 \<and>
   cone_pitch (cone (pressKey
       ((defaultProps [] \<lparr> cone_yaw = 0, cone_pitch = pi * 1.8, cone_radius = None \<rparr>)
          \<lparr> interactive := True, onConeChange := True \<rparr>) ''ArrowUp'')) = pi * 1.8 \<and>
   (0 :: real) - 0.02 \<le> 0 \<and>
   cone_pitch (cone (pressKey
       ((defaultProps [] \<lparr> cone_yaw = 0, cone_pitch = 0, cone_radius = None \<rparr>)
          \<lparr> interactive := True, onConeChange := True \<rparr>) ''ArrowDown'')) = 0"
proof -
  have "pi / 3 \<le> pi * 1.8"
    using pi_ge_zero by simp
  then show ?thesis
    using keyboard_pitch_clamped
      [of "(defaultProps [] defaultCone)\<lparr> interactive := True, onConeChange := True \<rparr>"
          "[''ArrowUp'', ''ArrowLeft'', ''ArrowDown'']"]
      keyboard_pitch_clamped
      [of "(defaultProps [] \<lparr> cone_yaw = 0, cone_pitch = pi * 1.8, cone_radius = None \<rparr>)
             \<lparr> interactive := True, onConeChange := True \<rparr>" "[]"]
      keyboard_pitch_clamped
      [of "(defaultProps [] \<lparr> cone_yaw = 0, cone_pitch = 0, cone_radius = None \<rparr>)
             \<lparr> interactive := True, onConeChange := True \<rparr>" "[]"]
    by (simp add: defaultProps_def defaultCone_def)
qed

text \<open>
  The claim as first stated, for every starting cone, fails when the starting pitch is
  outside the interval: from a pitch of \<open>10\<close> one \<open>ArrowDown\<close> gives \<open>9.98\<close>, still above
  \<open>1.8\<pi>\<close>.
\<close>

theorem keyboard_pitch_counterexample:
  "cone_pitch (cone (pressKeys
       ((defaultProps [] \<lparr> cone_yaw = 0, cone_pitch = 10, cone_radius = None \<rparr>)
          \<lparr> interactive := True, onConeChange := True \<rparr>)
       [''ArrowDown''])) = 9.98 \<and>
   \<not> cone_pitch (cone (pressKeys
       ((defaultProps [] \<lparr> cone_yaw = 0, cone_pitch = 10, cone_radius = None \<rparr>)
          \<lparr> interactive := True, onConeChange := True \<rparr>)
       [''ArrowDown''])) \<le> pi * 1.8"
proof -
  have val: "cone_pitch (cone (pressKeys
       ((defaultProps [] \<lparr> cone_yaw = 0, cone_pitch = 10, cone_radius = None \<rparr>)
          \<lparr> interactive := True, onConeChange := True \<rparr>)
       [''ArrowDown''])) = 9.98"
    by (simp add: pressKeys_def pressKey_def handleKeyDown_def defaultProps_def)
  have "pi * 1.8 < 9.98"
    using pi_less_4 by simp
  then show ?thesis
    by (simp only: val simp_thms not_le)
qed

text \<open>
  The active origin: the point of the list at \<open>coneOriginIndex\<close> when that is an index
  of the list, the centre of the component otherwise.
\<close>

lemma origin_active_point:
  "isInteger (coneOriginIndex props) \<Longrightarrow> 0 \<le> coneOriginIndex props \<Longrightarrow>
   coneOriginIndex props < real (length (points props)) \<Longrightarrow>
   origin props = points props ! nat \<lfloor>coneOriginIndex props\<rfloor>"
  by (simp add: origin_def)

lemma origin_fallback:
  "\<not> (isInteger (coneOriginIndex props) \<and> 0 \<le> coneOriginIndex props \<and>
      coneOriginIndex props < real (length (points props))) \<Longrightarrow>
   origin props = \<lparr> px = width props / 2, py = height props / 2 \<rparr>"
  by (auto simp: origin_def)

text \<open>
  Claim C9. While dragging (interactive, a change callback passed), a pointer move
  schedules a frame, and when the frame fires the controller calls \<open>onConeChange\<close> once,
  with the current cone in which only the yaw is replaced, by
  \<open>atan2 (y - origin.y) (x - origin.x)\<close> for the pointer position \<open>(x, y)\<close> inside the
  container; pitch and radius are those of the current cone. The origin is the active
  one: the point \<open>points[coneOriginIndex]\<close> when that index is in the list, and the centre
  of the component only when it is not. A pointer at \<open>(origin.x + 1, origin.y)\<close> gives the
  yaw \<open>0\<close>, one at \<open>(origin.x, origin.y + 1)\<close> the yaw \<open>\<pi>/2\<close>.
\<close>

theorem drag_sets_yaw:
  assumes "isDragging ctrl" and "interactive props" and "onConeChange props"
  shows "runAnimationFrame (Some rect) (fst (handlePointerMove props (Some rect0) ctrl e))
           = Inr (ctrl\<lparr> animationFrameRef := True, pendingFrame := None \<rparr>,
                  [OnConeChange ((cone props)\<lparr> cone_yaw :=
                     atan2 (clientY e - rect_top rect - py (origin props))
                           (clientX e - rect_left rect - px (origin props)) \<rparr>)]) \<and>
         (isInteger (coneOriginIndex props) \<and> 0 \<le> coneOriginIndex props \<and>
          coneOriginIndex props < real (length (points props)) \<longrightarrow>
            runAnimationFrame (Some rect) (fst (handlePointerMove props (Some rect0) ctrl e))
              = Inr (ctrl\<lparr> animationFrameRef := True, pendingFrame := None \<rparr>,
                     [OnConeChange ((cone props)\<lparr> cone_yaw :=
                        atan2 (clientY e - rect_top rect
                                 - py (points props ! nat \<lfloor>coneOriginIndex props\<rfloor>))
                              (clientX e - rect_left rect
                                 - px (points props ! nat \<lfloor>coneOriginIndex props\<rfloor>)) \<rparr>)])) \<and>
         (\<not> (isInteger (coneOriginIndex props) \<and> 0 \<le> coneOriginIndex props \<and>
             coneOriginIndex props < real (length (points props))) \<longrightarrow>
            runAnimationFrame (Some rect) (fst (handlePointerMove props (Some rect0) ctrl e))
              = Inr (ctrl\<lparr> animationFrameRef := True, pendingFrame := None \<rparr>,
                     [OnConeChange ((cone props)\<lparr> cone_yaw :=
                        atan2 (clientY e - rect_top rect - height props / 2)
                              (clientX e - rect_left rect - width props / 2) \<rparr>)])) \<and>
         cone_pitch ((cone props)\<lparr> cone_yaw :=
                     atan2 (clientY e - rect_top rect - py (origin props))
                           (clientX e - rect_left rect - px (origin props)) \<rparr>)
           = cone_pitch (cone props) \<and>
         cone_radius ((cone props)\<lparr> cone_yaw :=
                     atan2 (clientY e - rect_top rect - py (origin props))
                           (clientX e - rect_left rect - px (origin props)) \<rparr>)
           = cone_radius (cone props) \<and>
         (clientX e - rect_left rect = px (origin props) + 1 \<and>
          clientY e - rect_top rect = py (origin props) \<longrightarrow>
            atan2 (clientY e - rect_top rect - py (origin props))
                  (clientX e - rect_left rect - px (origin props)) = 0) \<and>
         (clientX e - rect_left rect = px (origin props) \<and>
          clientY e - rect_top rect = py (origin props) + 1 \<longrightarrow>
            atan2 (clientY e - rect_top rect - py (origin props))
                  (clientX e - rect_left rect - px (origin props)) = pi / 2)"
proof -
  have run: "runAnimationFrame (Some rect) (fst (handlePointerMove props (Some rect0) ctrl e))
           = Inr (ctrl\<lparr> animationFrameRef := True, pendingFrame := None \<rparr>,
                  [OnConeChange ((cone props)\<lparr> cone_yaw :=
                     atan2 (clientY e - rect_top rect - py (origin props))
                           (clientX e - rect_left rect - px (origin props)) \<rparr>)])"
    using assms by (simp add: runAnimationFrame_def handlePointerMove_def Let_def)
  have active: "runAnimationFrame (Some rect) (fst (handlePointerMove props (Some rect0) ctrl e))
              = Inr (ctrl\<lparr> animationFrameRef := True, pendingFrame := None \<rparr>,
                     [OnConeChange ((cone props)\<lparr> cone_yaw :=
                        atan2 (clientY e - rect_top rect
                                 - py (points props ! nat \<lfloor>coneOriginIndex props\<rfloor>))
                              (clientX e - rect_left rect
                                 - px (points props ! nat \<lfloor>coneOriginIndex props\<rfloor>)) \<rparr>)])"
    if "isInteger (coneOriginIndex props) \<and> 0 \<le> coneOriginIndex props \<and>
        coneOriginIndex props < real (length (points props))"
    using that by (simp only: run origin_active_point)
  have centre: "runAnimationFrame (Some rect) (fst (handlePointerMove props (Some rect0) ctrl e))
              = Inr (ctrl\<lparr> animationFrameRef := True, pendingFrame := None \<rparr>,
                     [OnConeChange ((cone props)\<lparr> cone_yaw :=
                        atan2 (clientY e - rect_top rect - height props / 2)
                              (clientX e - rect_left rect - width props / 2) \<rparr>)])"
    if "\<not> (isInteger (coneOriginIndex props) \<and> 0 \<le> coneOriginIndex props \<and>
           coneOriginIndex props < real (length (points props)))"
    using origin_fallback [OF that] by (simp add: run)
  have right: "atan2 0 1 = 0"
    by (simp add: atan2_def)
  have down: "atan2 1 0 = pi / 2"
    by (simp add: atan2_def)
  have dirs: "(clientX e - rect_left rect = px (origin props) + 1 \<and>
          clientY e - rect_top rect = py (origin props) \<longrightarrow>
            atan2 (clientY e - rect_top rect - py (origin props))
                  (clientX e - rect_left rect - px (origin props)) = 0) \<and>
         (clientX e - rect_left rect = px (origin props) \<and>
          clientY e - rect_top rect = py (origin props) + 1 \<longrightarrow>
            atan2 (clientY e - rect_top rect - py (origin props))
                  (clientX e - rect_left rect - px (origin props)) = pi / 2)"
    using right down by simp
  show ?thesis
    using run active centre dirs by simp
qed

theorem drag_sets_yaw_witness:
  "isDragging (initialCtrl\<lparr> isDragging := True \<rparr>) \<and>
   interactive ((defaultProps [\<lparr> px = 0, py = 0 \<rparr>, \<lparr> px = 100, py = 50 \<rparr>] defaultCone)
                  \<lparr> coneOriginIndex := 1, interactive := True, onConeChange := True \<rparr>) \<and>
   onConeChange ((defaultProps [\<lparr> px = 0, py = 0 \<rparr>, \<lparr> px = 100, py = 50 \<rparr>] defaultCone)
                   \<lparr> coneOriginIndex := 1, interactive := True, onConeChange := True \<rparr>) \<and>
   isInteger 1 \<and> (0 :: real) \<le> 1 \<and>
   (1 :: real) < real (length [\<lparr> px = 0, py = 0 \<rparr>, \<lparr> px = 100, py = 50 \<rparr>]) \<and>
   origin ((defaultProps [\<lparr> px = 0, py = 0 \<rparr>, \<lparr> px = 100, py = 50 \<rparr>] defaultCone)
             \<lparr> coneOriginIndex := 1, interactive := True, onConeChange := True \<rparr>)
     = \<lparr> px = 100, py = 50 \<rparr> \<and>
   runAnimationFrame (Some \<lparr> rect_left = 10, rect_top = 20, rect_width = 525, rect_height = 360 \<rparr>)
     (fst (handlePointerMove
        ((defaultProps [\<lparr> px = 0, py = 0 \<rparr>, \<lparr> px = 100, py = 50 \<rparr>] defaultCone)
           \<lparr> coneOriginIndex := 1, interactive := True, onConeChange := True \<rparr>)
        (Some \<lparr> rect_left = 10, rect_top = 20, rect_width = 525, rect_height = 360 \<rparr>)
        (initialCtrl\<lparr> isDragging := True \<rparr>)
        \<lparr> clientX = 111, clientY = 70, pointerId = 1 \<rparr>))
     = Inr (initialCtrl\<lparr> isDragging := True, animationFrameRef := True \<rparr>,
            [OnConeChange \<lparr> cone_yaw = 0, cone_pitch = pi / 3, cone_radius = None \<rparr>]) \<and>
   runAnimationFrame (Some \<lparr> rect_left = 10, rect_top = 20, rect_width = 525, rect_height = 360 \<rparr>)
     (fst (handlePointerMove
        ((defaultProps [\<lparr> px = 0, py = 0 \<rparr>, \<lparr> px = 100, py = 50 \<rparr>] defaultCone)
           \<lparr> coneOriginIndex := 1, interactive := True, onConeChange := True \<rparr>)
        (Some \<lparr> rect_left = 10, rect_top = 20, rect_width = 525, rect_height = 360 \<rparr>)
        (initialCtrl\<lparr> isDragging := True \<rparr>)
        \<lparr> clientX = 110, clientY = 71, pointerId = 1 \<rparr>))
     = Inr (initialCtrl\<lparr> isDragging := True, animationFrameRef := True \<rparr>,
            [OnConeChange \<lparr> cone_yaw = pi / 2, cone_pitch = pi / 3, cone_radius = None \<rparr>]) \<and>
   \<not> (isInteger 0 \<and> (0 :: real) \<le> 0 \<and> (0 :: real) < real (length ([] :: CartesianPoint list))) \<and>
   runAnimationFrame (Some \<lparr> rect_left = 0, rect_top = 0, rect_width = 525, rect_height = 360 \<rparr>)
     (fst (handlePointerMove
        ((defaultProps [] defaultCone)\<lparr> interactive := True, onConeChange := True \<rparr>)
        (Some \<lparr> rect_left = 0, rect_top = 0, rect_width = 525, rect_height = 360 \<rparr>)
        (initialCtrl\<lparr> isDragging := True \<rparr>)
        \<lparr> clientX = 262.5, clientY = 181, pointerId = 1 \<rparr>))
     = Inr (initialCtrl\<lparr> isDragging := True, animationFrameRef := True \<rparr>,
            [OnConeChange \<lparr> cone_yaw = pi / 2, cone_pitch = pi / 3, cone_radius = None \<rparr>])"
  using drag_sets_yaw
    [of "initialCtrl\<lparr> isDragging := True \<rparr>"
        "(defaultProps [\<lparr> px = 0, py = 0 \<rparr>, \<lparr> px = 100, py = 50 \<rparr>] defaultCone)
           \<lparr> coneOriginIndex := 1, interactive := True, onConeChange := True \<rparr>"
        "\<lparr> rect_left = 10, rect_top = 20, rect_width = 525, rect_height = 360 \<rparr>"
        "\<lparr> rect_left = 10, rect_top = 20, rect_width = 525, rect_height = 360 \<rparr>"
        "\<lparr> clientX = 111, clientY = 70, pointerId = 1 \<rparr>"]
    drag_sets_yaw
    [of "initialCtrl\<lparr> isDragging := True \<rparr>"
        "(defaultProps [\<lparr> px = 0, py = 0 \<rparr>, \<lparr> px = 100, py = 50 \<rparr>] defaultCone)
           \<lparr> coneOriginIndex := 1, interactive := True, onConeChange := True \<rparr>"
        "\<lparr> rect_left = 10, rect_top = 20, rect_width = 525, rect_height = 360 \<rparr>"
        "\<lparr> rect_left = 10, rect_top = 20, rect_width = 525, rect_height = 360 \<rparr>"
        "\<lparr> clientX = 110, clientY = 71, pointerId = 1 \<rparr>"]
    drag_sets_yaw
    [of "initialCtrl\<lparr> isDragging := True \<rparr>"
        "(defaultProps [] defaultCone)\<lparr> interactive := True, onConeChange := True \<rparr>"
        "\<lparr> rect_left = 0, rect_top = 0, rect_width = 525, rect_height = 360 \<rparr>"
        "\<lparr> rect_left = 0, rect_top = 0, rect_width = 525, rect_height = 360 \<rparr>"
        "\<lparr> clientX = 262.5, clientY = 181, pointerId = 1 \<rparr>"]
  by (simp add: initialCtrl_def defaultProps_def defaultCone_def origin_def isInteger_def)

text \<open>A second move before the frame fires replaces the scheduled callback: one call, from
  the later position.\<close>

lemma pointer_move_supersedes:
  assumes "isDragging ctrl" and "interactive props" and "onConeChange props"
  shows "runAnimationFrame (Some rect)
           (fst (handlePointerMove props (Some rect) (fst (handlePointerMove props (Some rect) ctrl e1)) e2))
           = runAnimationFrame (Some rect) (fst (handlePointerMove props (Some rect) ctrl e2)) \<and>
         snd (handlePointerMove props (Some rect) (fst (handlePointerMove props (Some rect) ctrl e1)) e2)
           = [CancelAnimationFrame]"
  using assms by (simp add: runAnimationFrame_def handlePointerMove_def Let_def)

text \<open>
  The arc of the rendered cone, for any props with a positive aperture: both ends lie at
  distance \<open>\<bar>radius\<bar>\<close> from the origin, with either module as \<open>sectorPath\<close>.
\<close>

lemma sector_arc_ends:
  "0 < pitch \<Longrightarrow>
   arcStart (sectorShape cx cy r yaw pitch) = Some (polarToCartesian cx cy r (yaw - pitch / 2)) \<and>
   arcEnd (sectorShape cx cy r yaw pitch) = Some (polarToCartesian cx cy r (yaw + pitch / 2))"
  by (simp add: sectorShape_positive)

lemma conePath_arc_distance:
  assumes "0 < cone_pitch (cone props)"
  shows "map_option (distance (origin props)) (arcStart (conePath sectorShape props))
           = Some \<bar>radius props\<bar> \<and>
         map_option (distance (origin props)) (arcEnd (conePath sectorShape props))
           = Some \<bar>radius props\<bar> \<and>
         conePath sectorShape_dup props = conePath sectorShape props"
proof -
  have d: "distance (origin props)
             (polarToCartesian (px (origin props)) (py (origin props)) r a) = \<bar>r\<bar>" for r a
    using polar_distance [of "px (origin props)" "py (origin props)" r a]
    by (simp only: point_eta)
  show ?thesis
    using assms by (simp add: conePath_def sector_arc_ends sectorShape_dup_eq d)
qed

text \<open>
  The picking loop, from any point of its run. Either no remaining point is both nearer
  than \<open>best\<close> and inside the radius \<open>R\<close>, and \<open>picked\<close> is returned as it was; or the
  loop returns the index of a remaining point inside the radius, nearer than \<open>best\<close>, no
  farther than any remaining point inside the radius and strictly nearer than every such
  point before it.
\<close>

lemma pickLoop_result:
  fixes x y R :: real
  defines "D \<equiv> \<lambda>p. hypot (x - px p) (y - py p)"
  shows "(pickLoop x y R ps i picked best = picked \<and>
          (\<forall>p \<in> set ps. \<not> (lessThanBest (D p) best \<and> D p \<le> R))) \<or>
         (\<exists>k < length ps.
            pickLoop x y R ps i picked best = int (i + k) \<and>
            D (ps ! k) \<le> R \<and> lessThanBest (D (ps ! k)) best \<and>
            (\<forall>j < length ps. D (ps ! j) \<le> R \<longrightarrow> D (ps ! k) \<le> D (ps ! j)) \<and>
            (\<forall>j < k. D (ps ! j) \<le> R \<longrightarrow> D (ps ! k) < D (ps ! j)))"
proof (induction ps arbitrary: i picked best)
  case Nil
  then show ?case by simp
next
  case (Cons p ps)
  show ?case
  proof (cases "lessThanBest (D p) best \<and> D p \<le> R")
    case True
    have step: "pickLoop x y R (p # ps) i picked best
                  = pickLoop x y R ps (Suc i) (int i) (Some (D p))"
      using True by (simp add: D_def Let_def)
    from Cons.IH [of "Suc i" "int i" "Some (D p)"]
    show ?thesis
    proof (elim disjE conjE exE)
      assume r: "pickLoop x y R ps (Suc i) (int i) (Some (D p)) = int i"
        and none: "\<forall>q \<in> set ps. \<not> (lessThanBest (D q) (Some (D p)) \<and> D q \<le> R)"
      have far: "\<forall>j < length ps. D (ps ! j) \<le> R \<longrightarrow> D p \<le> D (ps ! j)"
      proof (intro allI impI)
        fix j
        assume j: "j < length ps" and "D (ps ! j) \<le> R"
        moreover have "ps ! j \<in> set ps"
          using j by simp
        ultimately have "\<not> lessThanBest (D (ps ! j)) (Some (D p))"
          using none by blast
        then show "D p \<le> D (ps ! j)"
          by (simp add: lessThanBest_def)
      qed
      have "0 < length (p # ps) \<and> pickLoop x y R (p # ps) i picked best = int (i + 0) \<and>
            D ((p # ps) ! 0) \<le> R \<and> lessThanBest (D ((p # ps) ! 0)) best \<and>
            (\<forall>j < length (p # ps). D ((p # ps) ! j) \<le> R \<longrightarrow> D ((p # ps) ! 0) \<le> D ((p # ps) ! j)) \<and>
            (\<forall>j < 0. D ((p # ps) ! j) \<le> R \<longrightarrow> D ((p # ps) ! 0) < D ((p # ps) ! j))"
        using True far by (simp add: step r All_less_Suc2 del: pickLoop.simps)
      then show ?thesis by blast
    next
      fix k
      assume k: "k < length ps"
        and r: "pickLoop x y R ps (Suc i) (int i) (Some (D p)) = int (Suc i + k)"
        and inR: "D (ps ! k) \<le> R"
        and lt: "lessThanBest (D (ps ! k)) (Some (D p))"
        and least: "\<forall>j < length ps. D (ps ! j) \<le> R \<longrightarrow> D (ps ! k) \<le> D (ps ! j)"
        and first: "\<forall>j < k. D (ps ! j) \<le> R \<longrightarrow> D (ps ! k) < D (ps ! j)"
      have lt': "D (ps ! k) < D p"
        using lt by (simp add: lessThanBest_def)
      have b: "lessThanBest (D (ps ! k)) best"
        using True lt' by (auto simp: lessThanBest_def split: option.splits)
      have "Suc k < length (p # ps) \<and>
            pickLoop x y R (p # ps) i picked best = int (i + Suc k) \<and>
            D ((p # ps) ! Suc k) \<le> R \<and> lessThanBest (D ((p # ps) ! Suc k)) best \<and>
            (\<forall>j < length (p # ps). D ((p # ps) ! j) \<le> R \<longrightarrow> D ((p # ps) ! Suc k) \<le> D ((p # ps) ! j)) \<and>
            (\<forall>j < Suc k. D ((p # ps) ! j) \<le> R \<longrightarrow> D ((p # ps) ! Suc k) < D ((p # ps) ! j))"
        using k inR b least first lt' less_imp_le [OF lt']
        by (simp add: step r All_less_Suc2 del: pickLoop.simps)
      then show ?thesis by blast
    qed
  next
    case False
    have step: "pickLoop x y R (p # ps) i picked best = pickLoop x y R ps (Suc i) picked best"
      using False by (auto simp: D_def Let_def)
    from Cons.IH [of "Suc i" picked best]
    show ?thesis
    proof (elim disjE conjE exE)
      assume r: "pickLoop x y R ps (Suc i) picked best = picked"
        and none: "\<forall>q \<in> set ps. \<not> (lessThanBest (D q) best \<and> D q \<le> R)"
      show ?thesis
        using False none by (simp add: step r del: pickLoop.simps)
    next
      fix k
      assume k: "k < length ps"
        and r: "pickLoop x y R ps (Suc i) picked best = int (Suc i + k)"
        and inR: "D (ps ! k) \<le> R"
        and lt: "lessThanBest (D (ps ! k)) best"
        and least: "\<forall>j < length ps. D (ps ! j) \<le> R \<longrightarrow> D (ps ! k) \<le> D (ps ! j)"
        and first: "\<forall>j < k. D (ps ! j) \<le> R \<longrightarrow> D (ps ! k) < D (ps ! j)"
      have head: "D p \<le> R \<longrightarrow> D (ps ! k) < D p"
        using False lt by (auto simp: lessThanBest_def split: option.splits)
      have head': "D p \<le> R \<longrightarrow> D (ps ! k) \<le> D p"
        using head by auto
      have "Suc k < length (p # ps) \<and>
            pickLoop x y R (p # ps) i picked best = int (i + Suc k) \<and>
            D ((p # ps) ! Suc k) \<le> R \<and> lessThanBest (D ((p # ps) ! Suc k)) best \<and>
            (\<forall>j < length (p # ps). D ((p # ps) ! j) \<le> R \<longrightarrow> D ((p # ps) ! Suc k) \<le> D ((p # ps) ! j)) \<and>
            (\<forall>j < Suc k. D ((p # ps) ! j) \<le> R \<longrightarrow> D ((p # ps) ! Suc k) < D ((p # ps) ! j))"
        using k inR lt least first head head'
        by (simp add: step r All_less_Suc2 del: pickLoop.simps)
      then show ?thesis by blast
    qed
  qed
qed


text \<open>The loop as \<open>handlePointerDown\<close> starts it: from index \<open>0\<close>, nothing picked, \<open>best\<close> infinite.\<close>

lemma pickLoop_from_start:
  fixes x y R :: real
  defines "D \<equiv> \<lambda>q :: CartesianPoint. hypot (x - px q) (y - py q)"
  shows "(pickLoop x y R ps 0 (- 1) None = - 1 \<and> (\<forall>q \<in> set ps. \<not> D q \<le> R)) \<or>
         (\<exists>k < length ps. pickLoop x y R ps 0 (- 1) None = int k \<and> D (ps ! k) \<le> R \<and>
            (\<forall>j < length ps. D (ps ! k) \<le> D (ps ! j)) \<and>
            (\<forall>j < k. D (ps ! k) < D (ps ! j)))"
proof -
  from pickLoop_result [of x y R ps 0 "- 1" None]
  consider (none) "pickLoop x y R ps 0 (- 1) None = - 1" "\<forall>q \<in> set ps. \<not> D q \<le> R"
    | (some) k where "k < length ps" "pickLoop x y R ps 0 (- 1) None = int k"
        "D (ps ! k) \<le> R"
        "\<forall>j < length ps. D (ps ! j) \<le> R \<longrightarrow> D (ps ! k) \<le> D (ps ! j)"
        "\<forall>j < k. D (ps ! j) \<le> R \<longrightarrow> D (ps ! k) < D (ps ! j)"
    by (auto simp: D_def lessThanBest_def)
  then show ?thesis
  proof cases
    case none
    then show ?thesis by blast
  next
    case some
    have least: "\<forall>j < length ps. D (ps ! k) \<le> D (ps ! j)"
    proof (intro allI impI)
      fix j assume "j < length ps"
      then show "D (ps ! k) \<le> D (ps ! j)"
        using some(3,4) by (cases "D (ps ! j) \<le> R") auto
    qed
    have first: "\<forall>j < k. D (ps ! k) < D (ps ! j)"
    proof (intro allI impI)
      fix j assume "j < k"
      then show "D (ps ! k) < D (ps ! j)"
        using some(3,5) by (cases "D (ps ! j) \<le> R") auto
    qed
    show ?thesis
      using some(1,2,3) least first by blast
  qed
qed

lemma handlePointerDown_unfold:
  assumes "interactive props"
  shows "handlePointerDown props (Some rect) ctrl e =
        (let x = clientX e - rect_left rect;
             y = clientY e - rect_top rect;
             picked = pickLoop x y (originHandleRadius props) (points props) 0 (- 1) None
         in if picked \<noteq> - 1
            then (ctrl, if onSelectOrigin props then [OnSelectOrigin (nat picked)] else [])
            else if hypot (x - px (origin props)) (y - py (origin props))
                      \<le> originHandleRadius props
            then (ctrl\<lparr> isDragging := True \<rparr>, [SetPointerCapture (pointerId e)])
            else (ctrl, []))"
  using assms by (simp add: handlePointerDown_def Let_def hypot_def)

lemma hypot_axis: "hypot a 0 = \<bar>a\<bar>"
  by (simp add: hypot_def)

text \<open>
  The handler of \<open>CustomMap.tsx\<close>, on pointer-down at a position \<open>p\<close> inside the
  container of an interactive controller: when some origin point lies within
  \<open>originHandleRadius\<close> of \<open>p\<close>, the handler picks the nearest point (the first one
  among equally near points), calls the origin-selection callback, when one was passed,
  with its index and nothing else, and leaves the state as it was, so no drag starts;
  when no point lies within the radius but \<open>p\<close> is within the radius of the active
  origin, the handler sets the dragging flag and captures the pointer. The second case
  needs an active origin that is not one of the points, which is the centre the
  component falls back to when \<open>coneOriginIndex\<close> is no index of the list.
\<close>

lemma pointer_down_picks_nearest:
  assumes "interactive props"
  shows "((\<exists>q \<in> set (points props).
             distance q \<lparr> px = clientX e - rect_left rect, py = clientY e - rect_top rect \<rparr>
               \<le> originHandleRadius props) \<longrightarrow>
          (\<exists>k < length (points props).
             handlePointerDown props (Some rect) ctrl e
               = (ctrl, if onSelectOrigin props then [OnSelectOrigin k] else []) \<and>
             distance (points props ! k)
                 \<lparr> px = clientX e - rect_left rect, py = clientY e - rect_top rect \<rparr>
               \<le> originHandleRadius props \<and>
             (\<forall>j < length (points props).
                distance (points props ! k)
                    \<lparr> px = clientX e - rect_left rect, py = clientY e - rect_top rect \<rparr>
                  \<le> distance (points props ! j)
                    \<lparr> px = clientX e - rect_left rect, py = clientY e - rect_top rect \<rparr>) \<and>
             (\<forall>j < k.
                distance (points props ! k)
                    \<lparr> px = clientX e - rect_left rect, py = clientY e - rect_top rect \<rparr>
                  < distance (points props ! j)
                    \<lparr> px = clientX e - rect_left rect, py = clientY e - rect_top rect \<rparr>))) \<and>
         ((\<forall>q \<in> set (points props).
             originHandleRadius props
               < distance q \<lparr> px = clientX e - rect_left rect, py = clientY e - rect_top rect \<rparr>) \<and>
          distance (origin props)
              \<lparr> px = clientX e - rect_left rect, py = clientY e - rect_top rect \<rparr>
            \<le> originHandleRadius props \<longrightarrow>
          handlePointerDown props (Some rect) ctrl e
            = (ctrl\<lparr> isDragging := True \<rparr>, [SetPointerCapture (pointerId e)]))"
proof -
  define x where "x = clientX e - rect_left rect"
  define y where "y = clientY e - rect_top rect"
  define R where "R = originHandleRadius props"
  define D where "D = (\<lambda>q :: CartesianPoint. hypot (x - px q) (y - py q))"
  define picked where "picked = pickLoop x y R (points props) 0 (- 1) None"
  have dist: "distance q \<lparr> px = clientX e - rect_left rect, py = clientY e - rect_top rect \<rparr>
                = D q" for q
    by (simp add: distance_def D_def x_def y_def)
  have loop: "(picked = - 1 \<and> (\<forall>q \<in> set (points props). \<not> D q \<le> R)) \<or>
              (\<exists>k < length (points props). picked = int k \<and> D (points props ! k) \<le> R \<and>
                 (\<forall>j < length (points props). D (points props ! k) \<le> D (points props ! j)) \<and>
                 (\<forall>j < k. D (points props ! k) < D (points props ! j)))"
    unfolding picked_def D_def by (rule pickLoop_from_start)
  have down: "handlePointerDown props (Some rect) ctrl e =
        (if picked \<noteq> - 1
         then (ctrl, if onSelectOrigin props then [OnSelectOrigin (nat picked)] else [])
         else if D (origin props) \<le> R
         then (ctrl\<lparr> isDragging := True \<rparr>, [SetPointerCapture (pointerId e)])
         else (ctrl, []))"
    using handlePointerDown_unfold [OF assms, of rect ctrl e]
    by (simp add: Let_def picked_def x_def y_def R_def D_def)
  have pick: "\<exists>k < length (points props).
             handlePointerDown props (Some rect) ctrl e
               = (ctrl, if onSelectOrigin props then [OnSelectOrigin k] else []) \<and>
             D (points props ! k) \<le> R \<and>
             (\<forall>j < length (points props). D (points props ! k) \<le> D (points props ! j)) \<and>
             (\<forall>j < k. D (points props ! k) < D (points props ! j))"
    if near: "\<exists>q \<in> set (points props). D q \<le> R"
  proof -
    from loop near obtain k where k: "k < length (points props)" and p: "picked = int k"
      and inR: "D (points props ! k) \<le> R"
      and least: "\<forall>j < length (points props). D (points props ! k) \<le> D (points props ! j)"
      and first: "\<forall>j < k. D (points props ! k) < D (points props ! j)"
      by blast
    have "handlePointerDown props (Some rect) ctrl e
            = (ctrl, if onSelectOrigin props then [OnSelectOrigin k] else [])"
      by (simp add: down p)
    then show ?thesis
      using k inR least first by blast
  qed
  have drag: "handlePointerDown props (Some rect) ctrl e
            = (ctrl\<lparr> isDragging := True \<rparr>, [SetPointerCapture (pointerId e)])"
    if far: "\<forall>q \<in> set (points props). R < D q" and o: "D (origin props) \<le> R"
  proof -
    have "picked = - 1"
    proof (rule ccontr)
      assume "picked \<noteq> - 1"
      with loop obtain k where "k < length (points props)" and "D (points props ! k) \<le> R"
        by blast
      moreover from this have "R < D (points props ! k)"
        using far by simp
      ultimately show False by simp
    qed
    then show ?thesis
      using o by (simp add: down)
  qed
  show ?thesis
    unfolding dist using pick drag unfolding R_def by blast
qed

lemma pointer_down_picks_nearest_example:
  "handlePointerDown
     ((defaultProps [\<lparr> px = 0, py = 0 \<rparr>, \<lparr> px = 10, py = 0 \<rparr>] defaultCone)
        \<lparr> interactive := True, onSelectOrigin := True \<rparr>)
     (Some \<lparr> rect_left = 0, rect_top = 0, rect_width = 525, rect_height = 360 \<rparr>)
     initialCtrl \<lparr> clientX = 8, clientY = 0, pointerId = 1 \<rparr>
     = (initialCtrl, [OnSelectOrigin 1]) \<and>
   origin ((defaultProps [\<lparr> px = 0, py = 0 \<rparr>] defaultCone)
             \<lparr> coneOriginIndex := 5, interactive := True \<rparr>) = \<lparr> px = 262.5, py = 180 \<rparr> \<and>
   handlePointerDown
     ((defaultProps [\<lparr> px = 0, py = 0 \<rparr>] defaultCone)
        \<lparr> coneOriginIndex := 5, interactive := True \<rparr>)
     (Some \<lparr> rect_left = 0, rect_top = 0, rect_width = 525, rect_height = 360 \<rparr>)
     initialCtrl \<lparr> clientX = 262.5, clientY = 180, pointerId = 1 \<rparr>
     = (initialCtrl\<lparr> isDragging := True \<rparr>, [SetPointerCapture 1])"
proof -
  have far: "\<not> hypot (525 / 2) 180 \<le> 24"
  proof -
    have "sqrt (24 * 24) < sqrt (525 / 2 * (525 / 2) + 180 * 180)"
      by (rule real_sqrt_less_mono) simp
    then show ?thesis
      by (simp add: hypot_def)
  qed
  show ?thesis
    using pointer_down_picks_nearest
      [of "(defaultProps [\<lparr> px = 0, py = 0 \<rparr>, \<lparr> px = 10, py = 0 \<rparr>] defaultCone)
             \<lparr> interactive := True, onSelectOrigin := True \<rparr>"
          "\<lparr> clientX = 8, clientY = 0, pointerId = 1 \<rparr>"
          "\<lparr> rect_left = 0, rect_top = 0, rect_width = 525, rect_height = 360 \<rparr>"
          initialCtrl] far
    by (simp add: defaultProps_def distance_def hypot_axis origin_def isInteger_def
        handlePointerDown_def lessThanBest_def)
qed

text \<open>
  When the active origin is one of the points, a pointer-down never starts a drag: a
  pointer within the radius of the origin is within the radius of a point, and picks.
\<close>

lemma pointer_down_origin_among_points:
  assumes "interactive props" and "origin props \<in> set (points props)"
  shows "isDragging (fst (handlePointerDown props (Some rect) ctrl e)) = isDragging ctrl"
proof (cases "distance (origin props)
                \<lparr> px = clientX e - rect_left rect, py = clientY e - rect_top rect \<rparr>
              \<le> originHandleRadius props")
  case True
  then have "\<exists>q \<in> set (points props).
             distance q \<lparr> px = clientX e - rect_left rect, py = clientY e - rect_top rect \<rparr>
               \<le> originHandleRadius props"
    using assms(2) by blast
  then have "pickLoop (clientX e - rect_left rect) (clientY e - rect_top rect)
               (originHandleRadius props) (points props) 0 (- 1) None \<noteq> - 1"
    using pickLoop_from_start [of "clientX e - rect_left rect" "clientY e - rect_top rect"
        "originHandleRadius props" "points props"]
    by (auto simp: distance_def)
  then show ?thesis
    by (simp add: handlePointerDown_unfold [OF assms(1)] Let_def)
next
  case False
  then show ?thesis
    using assms(1)
    by (simp add: handlePointerDown_def Let_def distance_def hypot_def)
qed

text \<open>The older copy starts the drag whenever the pointer is within the radius of the
  active origin, whether or not that origin is one of the points.\<close>

lemma pointer_down_dup_drags:
  assumes "interactive props"
    and "distance (origin props)
           \<lparr> px = clientX e - rect_left rect, py = clientY e - rect_top rect \<rparr>
         \<le> originHandleRadius props"
  shows "handlePointerDown_dup props (Some rect) ctrl e
           = (ctrl\<lparr> isDragging := True \<rparr>, [SetPointerCapture (pointerId e)])"
  using assms by (simp add: handlePointerDown_dup_def Let_def distance_def hypot_def)


section \<open>Context binding layer: properties\<close>

text \<open>
  Under the wiring of \<open>CustomMap\<close> the active origin is always one of the points as soon
  as the context has a point (and \<open>CustomMap\<close> seeds one when it has none): the active
  index is an integer clamped into the list. So a pointer-down on the rendered component
  never starts a drag.
\<close>

lemma isInteger_Ints: "isInteger v = (v \<in> \<int>)"
  by (auto simp: isInteger_def Ints_def)

lemma activeIdx_valid:
  assumes "ps_points st \<noteq> []"
  shows "isInteger (activeIdx st) \<and> 0 \<le> activeIdx st \<and>
         activeIdx st < real (length (ps_points st))"
proof -
  define idx where "idx = (if isInteger (ps_activePoint st) then ps_activePoint st else 0)"
  define top where "top = max 0 (real (length (ps_points st)) - 1)"
  have idx: "idx \<in> \<int>"
    by (simp add: idx_def isInteger_Ints)
  have lo: "max idx 0 \<in> \<int>"
    using idx by (simp add: max_def)
  have "real (length (ps_points st)) - 1 \<in> \<int>"
    by simp
  then have top: "top \<in> \<int>"
    by (simp add: top_def max_def)
  have a: "activeIdx st = min (max idx 0) top"
    using assms by (simp add: activeIdx_def pointsGrid_def idx_def top_def Let_def)
  have "min (max idx 0) top \<in> \<int>"
    using lo top by (simp add: min_def)
  moreover have "0 \<le> min (max idx 0) top"
    by (simp add: top_def)
  moreover have "0 < length (ps_points st)"
    using assms by simp
  then have "top < real (length (ps_points st))"
    by (simp add: top_def)
  then have "min (max idx 0) top < real (length (ps_points st))"
    by simp
  ultimately show ?thesis
    by (simp add: a isInteger_Ints)
qed

lemma customMap_origin_among_points:
  assumes "ps_points st \<noteq> []"
  shows "origin (mapWithConePropsMemo st c sc baseWidth baseHeight)
           \<in> set (points (mapWithConePropsMemo st c sc baseWidth baseHeight))"
proof -
  let ?P = "mapWithConePropsMemo st c sc baseWidth baseHeight"
  have len: "length (points ?P) = length (ps_points st)"
    using assms by (simp add: mapWithConePropsMemo_def scaledPoints_def pointsGrid_def Let_def)
  have idx: "coneOriginIndex ?P = activeIdx st"
    by (simp add: mapWithConePropsMemo_def Let_def)
  have v: "isInteger (coneOriginIndex ?P)" "0 \<le> coneOriginIndex ?P"
      "coneOriginIndex ?P < real (length (points ?P))"
    using activeIdx_valid [OF assms] by (simp_all add: idx len)
  have nn: "0 \<le> \<lfloor>coneOriginIndex ?P\<rfloor>"
    using v(2) by simp
  have "nat \<lfloor>coneOriginIndex ?P\<rfloor> < length (points ?P)"
    using v(3) by (simp add: nat_less_iff [OF nn] floor_less_iff)
  then show ?thesis
    by (simp only: origin_active_point [OF v] nth_mem)
qed

lemma customMap_pointer_down_never_drags:
  assumes "ps_points st \<noteq> []"
  shows "isDragging (fst (handlePointerDown (mapWithConePropsMemo st c sc baseWidth baseHeight)
                            (Some rect) ctrl e)) = isDragging ctrl"
proof -
  have "interactive (mapWithConePropsMemo st c sc baseWidth baseHeight)"
    by (simp add: mapWithConePropsMemo_def Let_def)
  then show ?thesis
    using customMap_origin_among_points [OF assms] by (rule pointer_down_origin_among_points)
qed

lemma updateYaw_same:
  "cone_yaw (coneLocal b) = newYaw \<Longrightarrow> updateYaw pathname b newYaw = (b, [])"
  by (simp add: updateYaw_def)

lemma updateYaw_changed:
  "cone_yaw (coneLocal b) \<noteq> newYaw \<Longrightarrow>
   snd (updateYaw pathname b newYaw)
     = [StoreSetCone pathname \<lparr> cone_yaw = newYaw, cone_pitch = cone_pitch (coneLocal b),
                                 cone_radius = cone_radius (coneLocal b) \<rparr>] \<and>
   cone_yaw (coneLocal (fst (updateYaw pathname b newYaw))) = newYaw"
  by (simp add: updateYaw_def Let_def)

text \<open>
  An emission whose yaw is the one already held: the guard keeps the local cone and the
  store as they are, and the listener, when there is one, is called all the same. The
  effect on the store's yaw does nothing in that case.
\<close>

lemma onViewerPosition_same_yaw:
  "cone_yaw (coneLocal b) = newYaw \<Longrightarrow>
   onViewerPosition pathname listener b newYaw
     = (b, if listener then [OnPositionChange newYaw (cone_pitch (coneLocal b))] else [])"
  by (simp add: onViewerPosition_def updateYaw_same)

lemma storeYawEffect_same_yaw:
  "cone_yaw (coneLocal b) = newYaw \<Longrightarrow> storeYawEffect pathname b (Some newYaw) = (b, [])"
  by (simp add: storeYawEffect_def updateYaw_same)

text \<open>
  Claim C2, at the subscription callback. With the local cone at its default
  (yaw \<open>0\<close>, pitch \<open>\<pi>/3\<close>), an empty store and a position-change listener passed, an
  emission with yaw \<open>0\<close> writes nothing to the store and leaves the local cone alone, but
  the listener is called with yaw \<open>0\<close> and pitch \<open>\<pi>/3\<close>: the notification is not under
  the guard. The effect on the store's yaw makes no call on the same input.
\<close>

theorem viewer_position_same_yaw_notifies:
  "onViewerPosition ''/'' True \<lparr> coneLocal = defaultCone, mapStore = emptyStore \<rparr> 0
     = (\<lparr> coneLocal = defaultCone, mapStore = emptyStore \<rparr>, [OnPositionChange 0 (pi / 3)]) \<and>
   storeYawEffect ''/'' \<lparr> coneLocal = defaultCone, mapStore = emptyStore \<rparr> (Some 0)
     = (\<lparr> coneLocal = defaultCone, mapStore = emptyStore \<rparr>, [])"
proof -
  have y: "cone_yaw (coneLocal \<lparr> coneLocal = defaultCone, mapStore = emptyStore \<rparr>) = 0"
    by (simp add: defaultCone_def)
  show ?thesis
    by (simp add: onViewerPosition_same_yaw [OF y] storeYawEffect_same_yaw [OF y])
       (simp add: defaultCone_def)
qed

text \<open>
  Claim C6, amended. For a context whose state is \<open>points = [(0, 360)]\<close>,
  \<open>activePoint = 0\<close>, \<open>cone = {yaw: 0, pitch: \<pi>/3, radius: 100}\<close>, with base dimensions
  \<open>525 \<times> 360\<close> and a display scale of \<open>0.5\<close>, the rendered cone origin is at \<open>(0, 180)\<close>,
  the radius handed to \<open>sectorPath\<close> is the stored \<open>100\<close> (the points are scaled, the
  radius is not), and the arc start and end points of the rendered sector are each at
  Euclidean distance \<open>100\<close> from that origin.
\<close>

theorem rendered_cone_end_to_end:
  assumes "ps_points st = [\<lparr> px = 0, py = 360 \<rparr>]"
    and "ps_activePoint st = 0"
    and "ps_cone st = \<lparr> cone_yaw = 0, cone_pitch = pi / 3, cone_radius = Some 100 \<rparr>"
    and "scale outerSize 525 360 = 0.5"
  shows "origin (mapWithConeProps st (syncedConeLocal st) outerSize 525 360)
           = \<lparr> px = 0, py = 180 \<rparr> \<and>
         radius (mapWithConeProps st (syncedConeLocal st) outerSize 525 360) = 100 \<and>
         initialConeLocal st = syncedConeLocal st \<and>
         map_option (distance \<lparr> px = 0, py = 180 \<rparr>)
           (arcStart (conePath sectorShape
              (mapWithConeProps st (syncedConeLocal st) outerSize 525 360))) = Some 100 \<and>
         map_option (distance \<lparr> px = 0, py = 180 \<rparr>)
           (arcEnd (conePath sectorShape
              (mapWithConeProps st (syncedConeLocal st) outerSize 525 360))) = Some 100 \<and>
         conePath sectorShape_dup (mapWithConeProps st (syncedConeLocal st) outerSize 525 360)
           = conePath sectorShape (mapWithConeProps st (syncedConeLocal st) outerSize 525 360)"
proof -
  let ?P = "mapWithConeProps st (syncedConeLocal st) outerSize 525 360"
  have o: "origin ?P = \<lparr> px = 0, py = 180 \<rparr>"
    using assms
    by (simp add: origin_def mapWithConeProps_def mapWithConePropsMemo_def scaledPoints_def pointsGrid_def
        activeIdx_def isInteger_def Let_def)
  have r: "radius ?P = 100"
    using assms by (simp add: radius_def mapWithConeProps_def mapWithConePropsMemo_def syncedConeLocal_def Let_def)
  have p: "0 < cone_pitch (cone ?P)"
    using assms by (simp add: mapWithConeProps_def mapWithConePropsMemo_def syncedConeLocal_def Let_def)
  have i: "initialConeLocal st = syncedConeLocal st"
    using assms by (simp add: initialConeLocal_def syncedConeLocal_def)
  show ?thesis
    using conePath_arc_distance [OF p] by (simp add: o r i)
qed

theorem rendered_cone_end_to_end_witness:
  "scale \<lparr> size_w = 262.5, size_h = 180 \<rparr> 525 360 = 0.5 \<and>
   origin (mapWithConeProps
      \<lparr> ps_points = [\<lparr> px = 0, py = 360 \<rparr>], ps_activePoint = 0,
        ps_cone = \<lparr> cone_yaw = 0, cone_pitch = pi / 3, cone_radius = Some 100 \<rparr> \<rparr>
      \<lparr> cone_yaw = 0, cone_pitch = pi / 3, cone_radius = Some 100 \<rparr>
      \<lparr> size_w = 262.5, size_h = 180 \<rparr> 525 360) = \<lparr> px = 0, py = 180 \<rparr> \<and>
   map_option (distance \<lparr> px = 0, py = 180 \<rparr>)
     (arcEnd (conePath sectorShape (mapWithConeProps
        \<lparr> ps_points = [\<lparr> px = 0, py = 360 \<rparr>], ps_activePoint = 0,
          ps_cone = \<lparr> cone_yaw = 0, cone_pitch = pi / 3, cone_radius = Some 100 \<rparr> \<rparr>
        \<lparr> cone_yaw = 0, cone_pitch = pi / 3, cone_radius = Some 100 \<rparr>
        \<lparr> size_w = 262.5, size_h = 180 \<rparr> 525 360))) = Some 100"
proof -
  have s: "scale \<lparr> size_w = 262.5, size_h = 180 \<rparr> 525 360 = 0.5"
    by (simp add: scale_def)
  show ?thesis
    using rendered_cone_end_to_end
      [of "\<lparr> ps_points = [\<lparr> px = 0, py = 360 \<rparr>], ps_activePoint = 0,
             ps_cone = \<lparr> cone_yaw = 0, cone_pitch = pi / 3, cone_radius = Some 100 \<rparr> \<rparr>"
          "\<lparr> size_w = 262.5, size_h = 180 \<rparr>"] s
    by (simp add: syncedConeLocal_def)
qed

text \<open>
  The claim as first stated puts the arc's ends at distance \<open>50\<close>. In a container of
  \<open>262.5 \<times> 180\<close>, where the scale is \<open>0.5\<close>, the start of the arc is at distance \<open>100\<close>
  from the rendered origin, not \<open>50\<close>.
\<close>

theorem rendered_cone_radius_counterexample:
  "map_option
     (distance (origin (mapWithConeProps
        \<lparr> ps_points = [\<lparr> px = 0, py = 360 \<rparr>], ps_activePoint = 0,
          ps_cone = \<lparr> cone_yaw = 0, cone_pitch = pi / 3, cone_radius = Some 100 \<rparr> \<rparr>
        \<lparr> cone_yaw = 0, cone_pitch = pi / 3, cone_radius = Some 100 \<rparr>
        \<lparr> size_w = 262.5, size_h = 180 \<rparr> 525 360)))
     (arcStart (conePath sectorShape (mapWithConeProps
        \<lparr> ps_points = [\<lparr> px = 0, py = 360 \<rparr>], ps_activePoint = 0,
          ps_cone = \<lparr> cone_yaw = 0, cone_pitch = pi / 3, cone_radius = Some 100 \<rparr> \<rparr>
        \<lparr> cone_yaw = 0, cone_pitch = pi / 3, cone_radius = Some 100 \<rparr>
        \<lparr> size_w = 262.5, size_h = 180 \<rparr> 525 360)))
     \<noteq> Some 50"
proof -
  let ?P = "mapWithConeProps
        \<lparr> ps_points = [\<lparr> px = 0, py = 360 \<rparr>], ps_activePoint = 0,
          ps_cone = \<lparr> cone_yaw = 0, cone_pitch = pi / 3, cone_radius = Some 100 \<rparr> \<rparr>
        \<lparr> cone_yaw = 0, cone_pitch = pi / 3, cone_radius = Some 100 \<rparr>
        \<lparr> size_w = 262.5, size_h = 180 \<rparr> 525 360"
  have p: "0 < cone_pitch (cone ?P)"
    by (simp add: mapWithConeProps_def mapWithConePropsMemo_def Let_def)
  have r: "radius ?P = 100"
    by (simp add: radius_def mapWithConeProps_def mapWithConePropsMemo_def Let_def)
  from conePath_arc_distance [OF p]
  have "map_option (distance (origin ?P)) (arcStart (conePath sectorShape ?P))
          = Some \<bar>radius ?P\<bar>"
    by (rule conjunct1)
  then have e: "map_option (distance (origin ?P)) (arcStart (conePath sectorShape ?P)) = Some 100"
    by (simp only: r abs_numeral)
  show ?thesis
    unfolding e by simp
qed

end
